theory Spec2Isabelle
  imports Complex_Main "HOL-Library.AList"
begin

section \<open>JavaScript values as the client code sees them\<close>

text \<open>
  The client receives JSON over HTTP and handles it at type \<open>unknown\<close>.  A number is a
  finite value, \<open>NaN\<close> or one of the two infinities; finite doubles are modelled by the
  rationals they denote (signed zero is not distinguished).  Strings are byte lists
  (UTF-8); objects are association lists read with \<open>map_of\<close>, their keys are the own
  properties.
\<close>

datatype jsnum = Fin rat | NaN | PosInf | NegInf

datatype jsval =
    JUndefined
  | JNull
  | JBool bool
  | JNum jsnum
  | JStr string
  | JArr "jsval list"
  | JObj "(string \<times> jsval) list"

type_synonym jsobj = "(string \<times> jsval) list"

text \<open>The exception that a conversion of a value to a primitive can throw.\<close>

datatype js_error = TypeError

text \<open>Sequencing of calls that may throw: the first exception ends the computation.\<close>

fun and_then :: "js_error + 'a \<Rightarrow> ('a \<Rightarrow> js_error + 'b) \<Rightarrow> js_error + 'b" where
  "and_then (Inl e) f = Inl e"
| "and_then (Inr x) f = f x"

fun collect :: "(js_error + 'a) list \<Rightarrow> js_error + 'a list" where
  "collect [] = Inr []"
| "collect (r # rs) = and_then r (\<lambda>x. and_then (collect rs) (\<lambda>xs. Inr (x # xs)))"

text \<open>
  Two algorithms of the language are not part of the repository and are taken as
  parameters of the model: \<open>Number::toString\<close> on finite numbers and \<open>StringToNumber\<close>.
  Every theorem below holds for all of their implementations.  What is fixed of the
  first is its alphabet: a finite number prints in decimal digits, the point, the two
  signs and the exponent letter.
\<close>

datatype digit = D0 | D1 | D2 | D3 | D4 | D5 | D6 | D7 | D8 | D9

datatype num_char = Digit digit | Point | Minus | Plus | Exponent

fun digit_char :: "digit \<Rightarrow> char" where
  "digit_char D0 = CHR ''0''"
| "digit_char D1 = CHR ''1''"
| "digit_char D2 = CHR ''2''"
| "digit_char D3 = CHR ''3''"
| "digit_char D4 = CHR ''4''"
| "digit_char D5 = CHR ''5''"
| "digit_char D6 = CHR ''6''"
| "digit_char D7 = CHR ''7''"
| "digit_char D8 = CHR ''8''"
| "digit_char D9 = CHR ''9''"

fun num_char_of :: "num_char \<Rightarrow> char" where
  "num_char_of (Digit d) = digit_char d"
| "num_char_of Point = CHR ''.''"
| "num_char_of Minus = CHR ''-''"
| "num_char_of Plus = CHR ''+''"
| "num_char_of Exponent = CHR ''e''"

record js_builtins =
  number_toString :: "rat \<Rightarrow> num_char list"
  string_toNumber :: "string \<Rightarrow> jsnum"

text \<open>
  One implementation, for evaluating the examples below; none of them prints a finite
  number or reads a string, so their results are the same under every other one.
\<close>

definition example_builtins :: js_builtins where
  "example_builtins = \<lparr>number_toString = (\<lambda>q. [Digit D0]), string_toNumber = (\<lambda>s. NaN)\<rparr>"

definition is_nullish :: "jsval \<Rightarrow> bool" where
  "is_nullish v = (v = JNull \<or> v = JUndefined)"

text \<open>\<open>a ?? b\<close>\<close>

definition nullish_coalesce :: "jsval \<Rightarrow> jsval \<Rightarrow> jsval" where
  "nullish_coalesce a b = (if is_nullish a then b else a)"

text \<open>Truthiness, and \<open>a || b\<close>.\<close>

fun truthy :: "jsval \<Rightarrow> bool" where
  "truthy JUndefined = False"
| "truthy JNull = False"
| "truthy (JBool b) = b"
| "truthy (JNum n) = (n \<noteq> NaN \<and> n \<noteq> Fin 0)"
| "truthy (JStr s) = (s \<noteq> [])"
| "truthy (JArr xs) = True"
| "truthy (JObj fs) = True"

definition js_or :: "jsval \<Rightarrow> jsval \<Rightarrow> jsval" where
  "js_or a b = (if truthy a then a else b)"

text \<open>\<open>Array.prototype.join\<close> with the separator \<open>,\<close> on the elements' strings.\<close>

fun join_comma :: "string list \<Rightarrow> string" where
  "join_comma [] = []"
| "join_comma [s] = s"
| "join_comma (s # t # ss) = s @ '','' @ join_comma (t # ss)"

text \<open>
  \<open>String(v)\<close>.  An array is the join of its elements' strings, where \<open>null\<close> and
  \<open>undefined\<close> elements give the empty string.  An object is converted through its
  \<open>toString\<close> property: a parsed JSON object inherits the method that answers
  \<open>[object Object]\<close>, unless it has an own property of that name; no JSON value is
  callable, so with such a property the conversion (which then tries \<open>valueOf\<close> and gets
  the object back) throws a \<open>TypeError\<close>.
\<close>

fun js_String :: "js_builtins \<Rightarrow> jsval \<Rightarrow> js_error + string" where
  "js_String B JUndefined = Inr ''undefined''"
| "js_String B JNull = Inr ''null''"
| "js_String B (JBool b) = Inr (if b then ''true'' else ''false'')"
| "js_String B (JNum n) =
     Inr (case n of Fin q \<Rightarrow> map num_char_of (number_toString B q) | NaN \<Rightarrow> ''NaN''
          | PosInf \<Rightarrow> ''Infinity'' | NegInf \<Rightarrow> ''-Infinity'')"
| "js_String B (JStr s) = Inr s"
| "js_String B (JArr xs) =
     and_then
       (collect (map (\<lambda>x. if x = JNull \<or> x = JUndefined then Inr [] else js_String B x) xs))
       (\<lambda>ss. Inr (join_comma ss))"
| "js_String B (JObj fs) =
     (if ''toString'' \<in> set (map fst fs) then Inl TypeError else Inr ''[object Object]'')"

text \<open>
  \<open>Number(v)\<close>: arrays and objects are first converted to a primitive, which ends in
  the same string conversion (their \<open>valueOf\<close> answers the object itself).
\<close>

fun js_Number :: "js_builtins \<Rightarrow> jsval \<Rightarrow> js_error + jsnum" where
  "js_Number B JUndefined = Inr NaN"
| "js_Number B JNull = Inr (Fin 0)"
| "js_Number B (JBool b) = Inr (Fin (if b then 1 else 0))"
| "js_Number B (JNum n) = Inr n"
| "js_Number B (JStr s) = Inr (string_toNumber B s)"
| "js_Number B (JArr xs) = and_then (js_String B (JArr xs)) (\<lambda>s. Inr (string_toNumber B s))"
| "js_Number B (JObj fs) = and_then (js_String B (JObj fs)) (\<lambda>s. Inr (string_toNumber B s))"

text \<open>
  The values on which these conversions throw: an object with an own \<open>toString\<close>
  property, and an array that holds such a value.
\<close>

fun uncoercible :: "jsval \<Rightarrow> bool" where
  "uncoercible (JObj fs) = (''toString'' \<in> set (map fst fs))"
| "uncoercible (JArr xs) = (\<exists>x \<in> set xs. uncoercible x)"
| "uncoercible v = False"

text \<open>
  \<open>toLowerCase\<close>: the letters \<open>A\<close> to \<open>Z\<close> move to \<open>a\<close> to \<open>z\<close>.  Bytes of a
  non-ASCII character are left as they are.  Two such characters have an ASCII letter in
  their lower case: the Kelvin sign gives \<open>k\<close>, which is in no status name, and the
  dotted capital I gives \<open>i\<close> followed by a combining dot, which no status name holds.
  So a string with a non-ASCII character lowers to none of the status names, here as in
  the language.
\<close>

definition lower_char :: "char \<Rightarrow> char" where
  "lower_char c =
     (case map_of (zip ''ABCDEFGHIJKLMNOPQRSTUVWXYZ'' ''abcdefghijklmnopqrstuvwxyz'') c of
        None \<Rightarrow> c
      | Some l \<Rightarrow> l)"

definition toLowerCase :: "string \<Rightarrow> string" where
  "toLowerCase s = map lower_char s"

text \<open>\<open>obj[key]\<close> on an object: \<open>undefined\<close> when the key is absent.\<close>

definition js_get :: "jsobj \<Rightarrow> string \<Rightarrow> jsval" where
  "js_get obj k = (case map_of obj k of None \<Rightarrow> JUndefined | Some v \<Rightarrow> v)"

text \<open>\<open>data?.field\<close> on query data that is an object or \<open>undefined\<close>.\<close>

definition opt_field :: "jsobj option \<Rightarrow> string \<Rightarrow> jsval" where
  "opt_field data k = (case data of None \<Rightarrow> JUndefined | Some d \<Rightarrow> js_get d k)"

section \<open>lib/api.ts: status normalisation\<close>

text \<open>The members of the type \<open>BacktestStatusValue\<close>.\<close>

definition BacktestStatusValue :: "string list" where
  "BacktestStatusValue = [''pending'', ''running'', ''completed'', ''failed'', ''cancelled'']"

text \<open>The function has no handler: an exception of \<open>String\<close> leaves it.\<close>

definition normalizeBacktestStatus :: "js_builtins \<Rightarrow> jsval \<Rightarrow> js_error + string" where
  "normalizeBacktestStatus B status =
     and_then (js_String B (nullish_coalesce status (JStr [])))
       (\<lambda>s. let normalized = toLowerCase s
            in Inr (if normalized = ''pending'' \<or> normalized = ''running''
                       \<or> normalized = ''completed'' \<or> normalized = ''failed''
                       \<or> normalized = ''cancelled''
                    then normalized
                    else ''pending''))"

text \<open>
  The status endpoint's wrapper \<open>api.backtests.status\<close>: the response object with its
  status replaced by the normalised one.
\<close>

definition api_backtests_status :: "js_builtins \<Rightarrow> jsobj \<Rightarrow> js_error + jsobj" where
  "api_backtests_status B response_data =
     and_then (normalizeBacktestStatus B (js_get response_data ''status''))
       (\<lambda>st. Inr (AList.update ''status'' (JStr st) response_data))"

section \<open>lib/api.ts: metric normalisation\<close>

definition NUMERIC_METRIC_KEYS :: "string list" where
  "NUMERIC_METRIC_KEYS =
     [''total_return'', ''cagr'', ''sharpe_ratio'', ''sortino_ratio'', ''calmar_ratio'',
      ''mdd'', ''win_rate'', ''avg_win'', ''avg_loss'', ''profit_factor'']"

definition INTEGER_METRIC_KEYS :: "string list" where
  "INTEGER_METRIC_KEYS = [''total_trades'', ''winning_trades'', ''losing_trades'']"

text \<open>\<open>Number.isFinite\<close> and \<open>Math.trunc\<close>.\<close>

fun isFinite :: "jsnum \<Rightarrow> bool" where
  "isFinite (Fin q) = True"
| "isFinite NaN = False"
| "isFinite PosInf = False"
| "isFinite NegInf = False"

fun math_trunc :: "jsnum \<Rightarrow> jsnum" where
  "math_trunc (Fin q) = Fin (of_int (if 0 \<le> q then \<lfloor>q\<rfloor> else \<lceil>q\<rceil>))"
| "math_trunc NaN = NaN"
| "math_trunc PosInf = PosInf"
| "math_trunc NegInf = NegInf"

definition toNumber :: "js_builtins \<Rightarrow> jsval \<Rightarrow> js_error + jsval" where
  "toNumber B v =
     (if v = JNull \<or> v = JUndefined then Inr JUndefined
      else and_then (case v of JNum x \<Rightarrow> Inr x | _ \<Rightarrow> js_Number B v)
             (\<lambda>n. Inr (if isFinite n then JNum n else JUndefined)))"

definition toInteger :: "js_builtins \<Rightarrow> jsval \<Rightarrow> js_error + jsval" where
  "toInteger B v =
     and_then (toNumber B v)
       (\<lambda>n. Inr (case n of JNum x \<Rightarrow> JNum (math_trunc x) | _ \<Rightarrow> JUndefined))"

text \<open>
  \<open>payload.metrics?.[key]\<close>: \<open>undefined\<close> when \<open>metrics\<close> is \<open>null\<close> or
  \<open>undefined\<close>, the field of an object, and \<open>undefined\<close> on any other value (a metric
  name is no property of a boolean, a number, a string or an array).
\<close>

fun opt_index :: "jsval \<Rightarrow> string \<Rightarrow> jsval" where
  "opt_index (JObj fs) k = js_get fs k"
| "opt_index v k = JUndefined"

definition pickTopLevelOrMetric :: "jsobj \<Rightarrow> string \<Rightarrow> jsval" where
  "pickTopLevelOrMetric payload key =
     (let topLevel = js_get payload key in
      if topLevel \<noteq> JNull \<and> topLevel \<noteq> JUndefined then topLevel
      else let nestedMetric = opt_index (js_get payload ''metrics'') key in
           if nestedMetric \<noteq> JNull \<and> nestedMetric \<noteq> JUndefined then nestedMetric
           else JUndefined)"

text \<open>
  One of the two loops: for each key in turn, the converted pick from the original
  payload is assigned; an exception of the conversion ends the loop and the function.
\<close>

fun assign_metrics ::
  "(jsval \<Rightarrow> js_error + jsval) \<Rightarrow> jsobj \<Rightarrow> string list \<Rightarrow> jsobj \<Rightarrow> js_error + jsobj" where
  "assign_metrics convert payload [] normalized = Inr normalized"
| "assign_metrics convert payload (key # keys) normalized =
     and_then (convert (pickTopLevelOrMetric payload key))
       (\<lambda>v. assign_metrics convert payload keys (AList.update key v normalized))"

text \<open>The spread copy with the normalised status, then the two loops.\<close>

definition normalizeBacktestResult :: "js_builtins \<Rightarrow> jsobj \<Rightarrow> js_error + jsobj" where
  "normalizeBacktestResult B payload =
     and_then (normalizeBacktestStatus B (js_get payload ''status''))
       (\<lambda>st. and_then
          (assign_metrics (toNumber B) payload NUMERIC_METRIC_KEYS
             (AList.update ''status'' (JStr st) payload))
          (\<lambda>normalized. assign_metrics (toInteger B) payload INTEGER_METRIC_KEYS normalized))"

text \<open>What a metric field may hold after normalisation: a finite number or \<open>undefined\<close>.\<close>

fun finite_or_undefined :: "jsval \<Rightarrow> bool" where
  "finite_or_undefined JUndefined = True"
| "finite_or_undefined (JNum n) = isFinite n"
| "finite_or_undefined v = False"

text \<open>
  Three payloads: a backtest without trades, whose ratios were computed as \<open>0/0\<close> and
  \<open>x/0\<close>, with a nested copy of the metrics; one with an infinite \<open>final_value\<close> and an
  infinite nested metric; and one whose \<open>win_rate\<close> is the JSON object
  \<open>{"toString": null}\<close>.
\<close>

definition zero_trades_payload :: jsobj where
  "zero_trades_payload =
     [(''status'', JStr ''COMPLETED''), (''total_trades'', JNum (Fin 0)),
      (''win_rate'', JNum NaN), (''profit_factor'', JNum PosInf),
      (''metrics'', JObj [(''win_rate'', JNum (Fin 0)), (''avg_loss'', JNum NegInf)])]"

definition leaking_payload :: jsobj where
  "leaking_payload =
     [(''status'', JStr ''completed''), (''final_value'', JNum PosInf),
      (''metrics'', JObj [(''avg_loss'', JNum NegInf)])]"

definition unprintable_payload :: jsobj where
  "unprintable_payload =
     [(''status'', JStr ''completed''), (''win_rate'', JObj [(''toString'', JNull)])]"

text \<open>A payload whose \<open>win_rate\<close> is \<open>null\<close> at the top and one half under \<open>metrics\<close>.\<close>

definition nested_only_payload :: jsobj where
  "nested_only_payload =
     [(''win_rate'', JNull), (''metrics'', JObj [(''win_rate'', JNum (Fin (1 / 2)))])]"

text \<open>What the normalisation returns on three of them.\<close>

definition zero_trades_result :: jsobj where
  "zero_trades_result =
     [(''status'', JStr ''completed''), (''total_trades'', JNum (Fin 0)),
      (''win_rate'', JUndefined), (''profit_factor'', JUndefined),
      (''metrics'', JObj [(''win_rate'', JNum (Fin 0)), (''avg_loss'', JNum NegInf)]),
      (''total_return'', JUndefined), (''cagr'', JUndefined), (''sharpe_ratio'', JUndefined),
      (''sortino_ratio'', JUndefined), (''calmar_ratio'', JUndefined), (''mdd'', JUndefined),
      (''avg_win'', JUndefined), (''avg_loss'', JUndefined),
      (''winning_trades'', JUndefined), (''losing_trades'', JUndefined)]"

definition leaking_result :: jsobj where
  "leaking_result =
     [(''status'', JStr ''completed''), (''final_value'', JNum PosInf),
      (''metrics'', JObj [(''avg_loss'', JNum NegInf)]),
      (''total_return'', JUndefined), (''cagr'', JUndefined), (''sharpe_ratio'', JUndefined),
      (''sortino_ratio'', JUndefined), (''calmar_ratio'', JUndefined), (''mdd'', JUndefined),
      (''win_rate'', JUndefined), (''avg_win'', JUndefined), (''avg_loss'', JUndefined),
      (''profit_factor'', JUndefined), (''total_trades'', JUndefined),
      (''winning_trades'', JUndefined), (''losing_trades'', JUndefined)]"

definition nested_only_result :: jsobj where
  "nested_only_result =
     [(''win_rate'', JNum (Fin (1 / 2))), (''metrics'', JObj [(''win_rate'', JNum (Fin (1 / 2)))]),
      (''status'', JStr ''pending''),
      (''total_return'', JUndefined), (''cagr'', JUndefined), (''sharpe_ratio'', JUndefined),
      (''sortino_ratio'', JUndefined), (''calmar_ratio'', JUndefined), (''mdd'', JUndefined),
      (''avg_win'', JUndefined), (''avg_loss'', JUndefined), (''profit_factor'', JUndefined),
      (''total_trades'', JUndefined), (''winning_trades'', JUndefined),
      (''losing_trades'', JUndefined)]"

section \<open>hooks/use-backtests.ts: polling\<close>

text \<open>The value of \<open>refetchInterval\<close>: \<open>false\<close> or a number of milliseconds.\<close>

datatype refetch_interval = NoRefetch | EveryMs nat

text \<open>
  The \<open>refetchInterval\<close> callback of \<open>useBacktestStatus\<close>; its argument is
  \<open>query.state.data\<close>, an object or \<open>undefined\<close>.
\<close>

definition status_refetchInterval :: "js_builtins \<Rightarrow> jsobj option \<Rightarrow> js_error + refetch_interval" where
  "status_refetchInterval B data =
     and_then (normalizeBacktestStatus B (opt_field data ''status''))
       (\<lambda>status.
          Inr (if status = ''completed'' \<or> status = ''failed'' \<or> status = ''cancelled''
               then NoRefetch
               else EveryMs 1000))"

text \<open>
  The side effects of the terminal-transition handler, in the order the hook issues them.
  The failure toast carries \<open>statusQuery.data?.message\<close>.
\<close>

datatype effect =
    InvalidateLists
  | RefetchActiveLists
  | InvalidateDetail int
  | RefetchResult
  | ToastSuccess
  | ToastError jsval

text \<open>
  The hook's own state: the \<open>backtestId\<close> state variable (\<open>number | null\<close>), the
  \<open>completedStateRef\<close> marker, and the log of effects issued so far.
\<close>

record polling =
  backtestId :: "int option"
  completedStateRef :: "string option"
  fired :: "effect list"

text \<open>
  \<open>finalStatus\<close> is computed in the body of the hook, on every render, from the data the
  two queries hold; an exception of the normalisation leaves the hook.
\<close>

definition finalStatus :: "js_builtins \<Rightarrow> jsobj option \<Rightarrow> jsobj option \<Rightarrow> js_error + string" where
  "finalStatus B statusData resultData =
     normalizeBacktestStatus B
       (js_or (opt_field statusData ''status'') (opt_field resultData ''status''))"

definition isTerminalState :: "string \<Rightarrow> bool" where
  "isTerminalState st = (st = ''completed'' \<or> st = ''failed'' \<or> st = ''cancelled'')"

text \<open>
  One render followed by its effect, on the data the two queries hold at that render.
  \<open>!backtestId\<close> holds for \<open>null\<close> and for \<open>0\<close>.  When the render throws, no effect
  runs.
\<close>

definition terminal_effect ::
  "js_builtins \<Rightarrow> jsobj option \<Rightarrow> jsobj option \<Rightarrow> polling \<Rightarrow> js_error + polling" where
  "terminal_effect B statusData resultData s =
     and_then (finalStatus B statusData resultData)
       (\<lambda>st. Inr
          (case backtestId s of
             None \<Rightarrow> s\<lparr>completedStateRef := None\<rparr>
           | Some bid \<Rightarrow>
               if bid = 0 then s\<lparr>completedStateRef := None\<rparr>
               else if \<not> isTerminalState st then s
               else if completedStateRef s = Some st then s
               else s\<lparr>completedStateRef := Some st,
                      fired := fired s
                        @ [InvalidateLists, RefetchActiveLists, InvalidateDetail bid, RefetchResult]
                        @ (if st = ''completed'' then [ToastSuccess]
                           else if st = ''failed''
                           then [ToastError (opt_field statusData ''message'')]
                           else [])\<rparr>))"

text \<open>
  Render after render, over the successive data of the two queries; a render that
  throws ends the component.
\<close>

fun run_effects ::
  "js_builtins \<Rightarrow> polling \<Rightarrow> (jsobj option \<times> jsobj option) list \<Rightarrow> js_error + polling" where
  "run_effects B s [] = Inr s"
| "run_effects B s (d # ds) =
     and_then (terminal_effect B (fst d) (snd d) s) (\<lambda>s'. run_effects B s' ds)"

text \<open>
  \<open>reset\<close>, and the two halves of \<open>runBacktest\<close>: what runs before the mutation is awaited
  and what runs once it has resolved with the new job's id.
\<close>

definition reset :: "polling \<Rightarrow> polling" where
  "reset s = s\<lparr>completedStateRef := None, backtestId := None\<rparr>"

definition runBacktest_begin :: "polling \<Rightarrow> polling" where
  "runBacktest_begin s = s\<lparr>completedStateRef := None, backtestId := None\<rparr>"

definition runBacktest_resolved :: "int \<Rightarrow> polling \<Rightarrow> polling" where
  "runBacktest_resolved backtest_id s = s\<lparr>backtestId := Some backtest_id\<rparr>"

text \<open>The \<open>progress\<close> field the hook returns.\<close>

definition hook_progress :: "js_builtins \<Rightarrow> jsobj option \<Rightarrow> jsobj option \<Rightarrow> js_error + jsval" where
  "hook_progress B statusData resultData =
     and_then (finalStatus B statusData resultData)
       (\<lambda>st. Inr (nullish_coalesce (opt_field statusData ''progress'')
                    (JNum (Fin (if isTerminalState st then 100 else 0)))))"

text \<open>The \<open>status\<close> field the hook returns, render after render.\<close>

definition reported_statuses ::
  "js_builtins \<Rightarrow> (jsobj option \<times> jsobj option) list \<Rightarrow> (js_error + string) list" where
  "reported_statuses B ds = map (\<lambda>d. finalStatus B (fst d) (snd d)) ds"

text \<open>The toasts among the effects.\<close>

fun is_notification :: "effect \<Rightarrow> bool" where
  "is_notification ToastSuccess = True"
| "is_notification (ToastError m) = True"
| "is_notification e = False"

definition notifications :: "effect list \<Rightarrow> effect list" where
  "notifications es = filter is_notification es"

text \<open>A hook that has never run a job, and one that has handled the completion of job 3.\<close>

definition fresh_polling :: polling where
  "fresh_polling = \<lparr>backtestId = None, completedStateRef = None, fired = []\<rparr>"

definition handled_polling :: polling where
  "handled_polling =
     \<lparr>backtestId = Some 3, completedStateRef = Some ''completed'',
      fired = [InvalidateLists, RefetchActiveLists, InvalidateDetail 3, RefetchResult, ToastSuccess]\<rparr>"

text \<open>
  The data of a status query and of a result query, as the two wrappers of \<open>api.ts\<close>
  return them for a running and for a completed job.
\<close>

definition running_status_data :: jsobj where
  "running_status_data = [(''status'', JStr ''running'')]"

definition completed_result_data :: jsobj where
  "completed_result_data =
     [(''status'', JStr ''completed''), (''total_return'', JUndefined), (''cagr'', JUndefined),
      (''sharpe_ratio'', JUndefined), (''sortino_ratio'', JUndefined),
      (''calmar_ratio'', JUndefined), (''mdd'', JUndefined), (''win_rate'', JUndefined),
      (''avg_win'', JUndefined), (''avg_loss'', JUndefined), (''profit_factor'', JUndefined),
      (''total_trades'', JUndefined), (''winning_trades'', JUndefined),
      (''losing_trades'', JUndefined)]"

section \<open>app/dashboard/strategies/new/page.tsx: the new-strategy wizard\<close>

text \<open>
  The \<open>params\<close> state.  \<open>position_size\<close> is the percentage shown in the form.
\<close>

record strategy_params =
  fast_period :: rat
  slow_period :: rat
  use_ema :: bool
  buy_threshold :: rat
  panic_threshold :: rat
  sentiment_lookback :: rat
  stop_loss :: rat
  take_profit :: rat
  position_size :: rat
  ai_weight :: rat
  ignore_ai_on_strong_signal :: bool

definition initial_params :: strategy_params where
  "initial_params =
     \<lparr>fast_period = 10, slow_period = 30, use_ema = False,
      buy_threshold = 2 / 10, panic_threshold = - (5 / 10), sentiment_lookback = 3,
      stop_loss = 0, take_profit = 0, position_size = 100,
      ai_weight = 5 / 10, ignore_ai_on_strong_signal = False\<rparr>"

text \<open>The entries of \<open>strategyTypes\<close>: id and category (\<open>True\<close> for \<open>"ai"\<close>).\<close>

definition strategyTypes :: "(string \<times> bool) list" where
  "strategyTypes =
     [(''sma_crossover'', False), (''ema_crossover'', False), (''sentiment_sma'', True),
      (''sentiment_sma_aggressive'', True), (''sentiment_sma_conservative'', True)]"

text \<open>
  \<open>defaultParams\<close>: for each type, the update \<open>{...prev, ...typeDefaults}\<close> that its
  entry performs on the current parameters.
\<close>

definition defaultParams :: "string \<Rightarrow> (strategy_params \<Rightarrow> strategy_params) option" where
  "defaultParams t =
     (if t = ''sma_crossover'' then
        Some (\<lambda>prev. prev\<lparr>fast_period := 10, slow_period := 30,
                stop_loss := 0, take_profit := 0, position_size := 100\<rparr>)
      else if t = ''ema_crossover'' then
        Some (\<lambda>prev. prev\<lparr>fast_period := 10, slow_period := 30, use_ema := True,
                stop_loss := 0, take_profit := 0, position_size := 100\<rparr>)
      else if t = ''sentiment_sma'' then
        Some (\<lambda>prev. prev\<lparr>fast_period := 10, slow_period := 30,
                buy_threshold := 2 / 10, panic_threshold := - (5 / 10), sentiment_lookback := 3,
                stop_loss := 5, take_profit := 10, position_size := 100,
                ai_weight := 5 / 10, ignore_ai_on_strong_signal := False\<rparr>)
      else if t = ''sentiment_sma_aggressive'' then
        Some (\<lambda>prev. prev\<lparr>fast_period := 5, slow_period := 20,
                buy_threshold := 1 / 10, panic_threshold := - (3 / 10), sentiment_lookback := 2,
                stop_loss := 3, take_profit := 15, position_size := 100,
                ai_weight := 3 / 10, ignore_ai_on_strong_signal := True\<rparr>)
      else if t = ''sentiment_sma_conservative'' then
        Some (\<lambda>prev. prev\<lparr>fast_period := 15, slow_period := 50,
                buy_threshold := 4 / 10, panic_threshold := - (7 / 10), sentiment_lookback := 5,
                stop_loss := 7, take_profit := 8, position_size := 50,
                ai_weight := 7 / 10, ignore_ai_on_strong_signal := False\<rparr>)
      else None)"

text \<open>
  What the page does to the outside: an error toast, the create request handed to
  \<open>createStrategy.mutateAsync\<close>, and the navigation after a successful creation.  The
  request's description is that of the selected entry of \<open>strategyTypes\<close>, recorded here
  by the entry's id.
\<close>

datatype toast_message = SelectStrategyType | FastMustBeBelowSlow | EnterStrategyName

record create_request =
  req_name :: string
  req_description_of :: "string option"
  req_strategy_type :: string
  req_logic_config :: strategy_params

datatype page_effect =
    ToastErr toast_message
  | CreateStrategy create_request
  | RouterPushDashboard

record page =
  step :: nat
  selectedType :: "string option"
  strategyName :: string
  params :: strategy_params
  issued :: "page_effect list"

definition initial_page :: page where
  "initial_page =
     \<lparr>step = 1, selectedType = None, strategyName = [], params = initial_params, issued = []\<rparr>"

definition selectedStrategy :: "page \<Rightarrow> (string \<times> bool) option" where
  "selectedStrategy s =
     (case selectedType s of None \<Rightarrow> None
      | Some t \<Rightarrow> find (\<lambda>e. fst e = t) strategyTypes)"

definition isAiStrategy :: "page \<Rightarrow> bool" where
  "isAiStrategy s = (case selectedStrategy s of None \<Rightarrow> False | Some e \<Rightarrow> snd e)"

definition handleTypeSelect :: "string \<Rightarrow> page \<Rightarrow> page" where
  "handleTypeSelect typeId s =
     (let s' = s\<lparr>selectedType := Some typeId\<rparr> in
      case defaultParams typeId of
        None \<Rightarrow> s'
      | Some typeDefaults \<Rightarrow> s'\<lparr>params := typeDefaults (params s')\<rparr>)"

text \<open>The effect on \<open>searchParams\<close>, with the value of \<open>searchParams.get("type")\<close>.\<close>

definition searchParams_effect :: "string option \<Rightarrow> page \<Rightarrow> page" where
  "searchParams_effect ty s =
     (case ty of
        None \<Rightarrow> s
      | Some t \<Rightarrow>
          if t \<noteq> [] \<and> find (\<lambda>e. fst e = t) strategyTypes \<noteq> None then
            (let s' = s\<lparr>selectedType := Some t\<rparr> in
             case defaultParams t of
               None \<Rightarrow> s'
             | Some typeDefaults \<Rightarrow> s'\<lparr>params := typeDefaults (params s')\<rparr>)
          else s)"

definition handleNext :: "page \<Rightarrow> page" where
  "handleNext s =
     (if step s = 1 \<and> selectedType s = None then
        s\<lparr>issued := issued s @ [ToastErr SelectStrategyType]\<rparr>
      else if step s = 2 \<and> fast_period (params s) \<ge> slow_period (params s) then
        s\<lparr>issued := issued s @ [ToastErr FastMustBeBelowSlow]\<rparr>
      else s\<lparr>step := min (step s + 1) 3\<rparr>)"

definition handleBack :: "page \<Rightarrow> page" where
  "handleBack s = s\<lparr>step := max (step s - 1) 1\<rparr>"

text \<open>
  The white space that \<open>String.prototype.trim\<close> removes, in UTF-8: tab, line feed,
  vertical tab, form feed, carriage return, space, U+00A0, U+1680, U+2000 to U+200A,
  U+2028, U+2029, U+202F, U+205F, U+3000 and U+FEFF.
\<close>

definition WHITE_SPACE :: "string list" where
  "WHITE_SPACE =
     [[CHR 0x09], [CHR 0x0A], [CHR 0x0B], [CHR 0x0C], [CHR 0x0D], [CHR 0x20],
      [CHR 0xC2, CHR 0xA0], [CHR 0xE1, CHR 0x9A, CHR 0x80],
      [CHR 0xE2, CHR 0x80, CHR 0x80], [CHR 0xE2, CHR 0x80, CHR 0x81],
      [CHR 0xE2, CHR 0x80, CHR 0x82], [CHR 0xE2, CHR 0x80, CHR 0x83],
      [CHR 0xE2, CHR 0x80, CHR 0x84], [CHR 0xE2, CHR 0x80, CHR 0x85],
      [CHR 0xE2, CHR 0x80, CHR 0x86], [CHR 0xE2, CHR 0x80, CHR 0x87],
      [CHR 0xE2, CHR 0x80, CHR 0x88], [CHR 0xE2, CHR 0x80, CHR 0x89],
      [CHR 0xE2, CHR 0x80, CHR 0x8A], [CHR 0xE2, CHR 0x80, CHR 0xA8],
      [CHR 0xE2, CHR 0x80, CHR 0xA9], [CHR 0xE2, CHR 0x80, CHR 0xAF],
      [CHR 0xE2, CHR 0x81, CHR 0x9F], [CHR 0xE3, CHR 0x80, CHR 0x80],
      [CHR 0xEF, CHR 0xBB, CHR 0xBF]]"

text \<open>
  \<open>!strategyName.trim()\<close>: the trimmed name is empty when the name is a sequence of
  white space characters.
\<close>

function is_blank :: "string \<Rightarrow> bool" where
  "is_blank [] = True"
| "is_blank (c # cs) =
     (case find (\<lambda>w. take (length w) (c # cs) = w) WHITE_SPACE of
        None \<Rightarrow> False
      | Some w \<Rightarrow> is_blank (drop (length w) (c # cs)))"
  by pat_completeness auto
termination
proof (relation "measure length")
  show "wf (measure length)" by simp
next
  fix c cs w
  assume "find (\<lambda>w. take (length w) (c # cs) = w) WHITE_SPACE = Some w"
  then have "w \<in> set WHITE_SPACE"
    by (auto simp add: find_Some_iff)
  then have "w \<noteq> []" by (auto simp add: WHITE_SPACE_def)
  then show "(drop (length w) (c # cs), c # cs) \<in> measure length" by simp
qed

text \<open>
  \<open>handleSubmit\<close>.  Inside the \<open>try\<close>, \<open>selectedType!.toLowerCase()\<close> throws on \<open>null\<close>
  before any request is made, and the \<open>catch\<close> swallows it.  The flag says whether the
  awaited mutation succeeds; only then the router is called.
\<close>

definition handleSubmit :: "bool \<Rightarrow> page \<Rightarrow> page" where
  "handleSubmit created s =
     (if is_blank (strategyName s) then
        s\<lparr>issued := issued s @ [ToastErr EnterStrategyName]\<rparr>
      else
        let backendParams = (params s)\<lparr>position_size := position_size (params s) / 100\<rparr> in
        case selectedType s of
          None \<Rightarrow> s
        | Some t \<Rightarrow>
            s\<lparr>issued := issued s
                 @ [CreateStrategy
                      \<lparr>req_name = strategyName s,
                       req_description_of = map_option fst (selectedStrategy s),
                       req_strategy_type = toLowerCase t,
                       req_logic_config = backendParams\<rparr>]
                 @ (if created then [RouterPushDashboard] else [])\<rparr>)"

text \<open>
  What the user can do.  The next button is rendered before step 3 and the save button
  on step 3; they follow the step at once.  The controls of the three panels are another
  matter: the panels are the children of \<open>AnimatePresence mode="wait"\<close>, a panel stays
  mounted while it leaves (0.3 s), and no handler looks at the step.  So an event of a
  type button, a slider, the switch or the name field is taken on whatever step the page
  has reached.  The sliders and the switch of the AI block are rendered for an AI
  strategy only.  The \<open>Slider\<close> component is not among the sources; it is taken to
  deliver a value between the \<open>min\<close> and the \<open>max\<close> that the page gives it.
\<close>

datatype page_event =
    ClickType string
  | ClickNext
  | ClickBack
  | ClickSubmit bool
  | SlideFast rat
  | SlideSlow rat
  | SlideBuyThreshold rat
  | SlidePanicThreshold rat
  | SlideLookback rat
  | SlideStopLoss rat
  | SlideTakeProfit rat
  | SlidePositionSize rat
  | SlideAiWeight rat
  | SwitchIgnoreAi bool
  | TypeName string
  | UrlType "string option"

definition slider :: "page \<Rightarrow> bool \<Rightarrow> rat \<Rightarrow> rat \<Rightarrow> rat \<Rightarrow> (strategy_params \<Rightarrow> strategy_params) \<Rightarrow> page" where
  "slider s shown lo hi v upd =
     (if shown \<and> lo \<le> v \<and> v \<le> hi then s\<lparr>params := upd (params s)\<rparr> else s)"

fun page_step :: "page \<Rightarrow> page_event \<Rightarrow> page" where
  "page_step s (ClickType t) =
     (if t \<in> set (map fst strategyTypes) then handleTypeSelect t s else s)"
| "page_step s ClickNext = (if step s < 3 then handleNext s else s)"
| "page_step s ClickBack = handleBack s"
| "page_step s (ClickSubmit created) = (if step s < 3 then s else handleSubmit created s)"
| "page_step s (SlideFast v) = slider s True 3 50 v (\<lambda>p. p\<lparr>fast_period := v\<rparr>)"
| "page_step s (SlideSlow v) = slider s True 10 200 v (\<lambda>p. p\<lparr>slow_period := v\<rparr>)"
| "page_step s (SlideBuyThreshold v) =
     slider s (isAiStrategy s) 0 9 v (\<lambda>p. p\<lparr>buy_threshold := v / 10\<rparr>)"
| "page_step s (SlidePanicThreshold v) =
     slider s (isAiStrategy s) 0 9 v (\<lambda>p. p\<lparr>panic_threshold := v / 5 - 1\<rparr>)"
| "page_step s (SlideLookback v) =
     slider s (isAiStrategy s) 1 14 v (\<lambda>p. p\<lparr>sentiment_lookback := v\<rparr>)"
| "page_step s (SlideStopLoss v) = slider s True 0 30 v (\<lambda>p. p\<lparr>stop_loss := v\<rparr>)"
| "page_step s (SlideTakeProfit v) = slider s True 0 50 v (\<lambda>p. p\<lparr>take_profit := v\<rparr>)"
| "page_step s (SlidePositionSize v) = slider s True 10 100 v (\<lambda>p. p\<lparr>position_size := v\<rparr>)"
| "page_step s (SlideAiWeight v) =
     slider s (isAiStrategy s) 10 100 v (\<lambda>p. p\<lparr>ai_weight := v / 100\<rparr>)"
| "page_step s (SwitchIgnoreAi b) =
     (if isAiStrategy s
      then s\<lparr>params := (params s)\<lparr>ignore_ai_on_strong_signal := b\<rparr>\<rparr> else s)"
| "page_step s (TypeName n) = s\<lparr>strategyName := n\<rparr>"
| "page_step s (UrlType ty) = searchParams_effect ty s"

text \<open>The page after a sequence of events, from its initial state.\<close>

definition page_after :: "page_event list \<Rightarrow> page" where
  "page_after es = foldl page_step initial_page es"

text \<open>The create requests among the effects issued.\<close>

fun requests :: "page_effect list \<Rightarrow> create_request list" where
  "requests [] = []"
| "requests (CreateStrategy r # es) = r # requests es"
| "requests (e # es) = requests es"

text \<open>
  An invariant of the page: the percentage is between 10 and 100, and every request made
  so far carries a fraction above 0 and at most 1.
\<close>

definition size_in_range :: "page \<Rightarrow> bool" where
  "size_in_range s =
     (10 \<le> position_size (params s) \<and> position_size (params s) \<le> 100
      \<and> (\<forall>r \<in> set (requests (issued s)).
            0 < position_size (req_logic_config r) \<and> position_size (req_logic_config r) \<le> 1))"

text \<open>
  Three sessions.  In the first the next button refuses a fast period of 40 against a
  slow period of 30.  In the second the user passes step 2 with the periods 10 and 30,
  moves the fast slider to 50 while the panel of step 2 is still leaving, and saves.
  The third saves a position size of 20 percent.
\<close>

definition refused_periods :: "page_event list" where
  "refused_periods = [ClickType ''sma_crossover'', ClickNext, SlideFast 40, ClickNext]"

definition late_slide :: "page_event list" where
  "late_slide =
     [ClickType ''sma_crossover'', ClickNext, ClickNext, SlideFast 50, TypeName ''trend'',
      ClickSubmit True]"

definition small_position :: "page_event list" where
  "small_position =
     [ClickType ''sentiment_sma_conservative'', ClickNext, SlidePositionSize 20, ClickNext,
      TypeName ''calm'', ClickSubmit False]"

section \<open>Properties of the conversions\<close>

lemma toLowerCase_status_names:
  "toLowerCase ''pending'' = ''pending''" "toLowerCase ''running'' = ''running''"
  "toLowerCase ''completed'' = ''completed''" "toLowerCase ''failed'' = ''failed''"
  "toLowerCase ''cancelled'' = ''cancelled''"
  by (simp_all add: toLowerCase_def lower_char_def)

lemma toLowerCase_fixed:
  "toLowerCase [] = []" "toLowerCase ''true'' = ''true''" "toLowerCase ''false'' = ''false''"
  "toLowerCase ''[object Object]'' = ''[object object]''"
  "toLowerCase ''NaN'' = ''nan''" "toLowerCase ''Infinity'' = ''infinity''"
  "toLowerCase ''-Infinity'' = ''-infinity''"
  by (simp_all add: toLowerCase_def lower_char_def)

lemma and_then_Inr_iff: "and_then r f = Inr y \<longleftrightarrow> (\<exists>x. r = Inr x \<and> f x = Inr y)"
  by (cases r) simp_all

lemma and_then_Inl_iff: "and_then r f = Inl e \<longleftrightarrow> r = Inl e \<or> (\<exists>x. r = Inr x \<and> f x = Inl e)"
  by (cases r) simp_all

lemma js_error_is_TypeError: "(e :: js_error) = TypeError"
  by (cases e) simp

lemma collect_Inl_iff: "collect rs = Inl TypeError \<longleftrightarrow> (\<exists>r \<in> set rs. r = Inl TypeError)"
proof (induction rs)
  case Nil
  then show ?case by simp
next
  case (Cons r rs)
  show ?case
  proof (cases r)
    case (Inl e)
    then show ?thesis by (cases e) simp
  next
    case (Inr x)
    with Cons show ?thesis by (cases "collect rs") auto
  qed
qed

lemma collect_map_Inl_iff:
  "collect (map f xs) = Inl TypeError \<longleftrightarrow> (\<exists>x \<in> set xs. f x = Inl TypeError)"
  unfolding collect_Inl_iff by (force simp add: image_iff)

lemma js_String_throws_iff: "js_String B v = Inl TypeError \<longleftrightarrow> uncoercible v"
proof (induction B v rule: js_String.induct)
  case (6 B xs)
  have "js_String B (JArr xs) = Inl TypeError \<longleftrightarrow>
      (\<exists>x \<in> set xs. (if x = JNull \<or> x = JUndefined then Inr [] else js_String B x) = Inl TypeError)"
    by (simp add: and_then_Inl_iff collect_map_Inl_iff)
  also have "\<dots> \<longleftrightarrow> (\<exists>x \<in> set xs. uncoercible x)"
  proof (rule bex_cong [OF refl])
    fix x assume "x \<in> set xs"
    then show "(if x = JNull \<or> x = JUndefined then Inr [] else js_String B x) = Inl TypeError
        \<longleftrightarrow> uncoercible x"
      using 6 [of x] by (cases "x = JNull \<or> x = JUndefined") auto
  qed
  finally show ?case by simp
qed simp_all

lemma num_char_lower: "lower_char (num_char_of c) = num_char_of c"
proof (cases c)
  case (Digit d)
  then show ?thesis by (cases d) (simp_all add: lower_char_def)
qed (simp_all add: lower_char_def)

lemma num_char_no_initial:
  "num_char_of c \<noteq> CHR ''p''" "num_char_of c \<noteq> CHR ''r''"
  "num_char_of c \<noteq> CHR ''c''" "num_char_of c \<noteq> CHR ''f''"
proof -
  have "num_char_of c \<noteq> CHR ''p'' \<and> num_char_of c \<noteq> CHR ''r''
      \<and> num_char_of c \<noteq> CHR ''c'' \<and> num_char_of c \<noteq> CHR ''f''"
  proof (cases c)
    case (Digit d)
    then show ?thesis by (cases d) simp_all
  qed simp_all
  then show "num_char_of c \<noteq> CHR ''p''" "num_char_of c \<noteq> CHR ''r''"
    "num_char_of c \<noteq> CHR ''c''" "num_char_of c \<noteq> CHR ''f''"
    by simp_all
qed

lemma number_string_no_status: "toLowerCase (map num_char_of cs) \<notin> set BacktestStatusValue"
proof (cases cs)
  case Nil
  then show ?thesis by (simp add: toLowerCase_def BacktestStatusValue_def)
next
  case (Cons c cs')
  then show ?thesis
    by (simp add: toLowerCase_def BacktestStatusValue_def num_char_lower num_char_no_initial)
qed

section \<open>Properties of the status normalisation\<close>

lemma normalizeBacktestStatus_switch:
  "normalizeBacktestStatus B v =
     and_then (js_String B (nullish_coalesce v (JStr [])))
       (\<lambda>s. Inr (if toLowerCase s \<in> set BacktestStatusValue then toLowerCase s else ''pending''))"
  by (simp add: normalizeBacktestStatus_def BacktestStatusValue_def Let_def)

lemma normalizeBacktestStatus_cases:
  "normalizeBacktestStatus B v = Inr st \<Longrightarrow> st \<in> set BacktestStatusValue"
  by (auto simp add: normalizeBacktestStatus_switch and_then_Inr_iff BacktestStatusValue_def
      split: if_splits)

lemma uncoercible_coalesce: "uncoercible (nullish_coalesce v (JStr [])) = uncoercible v"
  by (auto simp add: nullish_coalesce_def is_nullish_def)

lemma normalizeBacktestStatus_throws_iff:
  "normalizeBacktestStatus B v = Inl TypeError \<longleftrightarrow> uncoercible v"
  by (simp add: normalizeBacktestStatus_switch and_then_Inl_iff js_String_throws_iff
      uncoercible_coalesce)

lemma normalizeBacktestStatus_string:
  "normalizeBacktestStatus B (JStr s) =
     Inr (if toLowerCase s \<in> set BacktestStatusValue then toLowerCase s else ''pending'')"
  by (simp add: normalizeBacktestStatus_switch nullish_coalesce_def is_nullish_def)

lemma normalizeBacktestStatus_idem:
  "normalizeBacktestStatus B v = Inr st \<Longrightarrow> normalizeBacktestStatus B (JStr st) = Inr st"
  using normalizeBacktestStatus_cases [of B v st]
  by (auto simp add: normalizeBacktestStatus_string BacktestStatusValue_def toLowerCase_status_names)

lemma normalizeBacktestStatus_number: "normalizeBacktestStatus B (JNum n) = Inr ''pending''"
proof (cases n)
  case (Fin q)
  then show ?thesis
    using number_string_no_status [of "number_toString B q"]
    by (simp add: normalizeBacktestStatus_switch nullish_coalesce_def is_nullish_def)
qed (simp_all add: normalizeBacktestStatus_switch nullish_coalesce_def is_nullish_def
      toLowerCase_fixed BacktestStatusValue_def)

lemma normalize_examples:
  "normalizeBacktestStatus B (JStr ''running'') = Inr ''running''"
  "normalizeBacktestStatus B (JStr ''completed'') = Inr ''completed''"
  "normalizeBacktestStatus B (JStr ''failed'') = Inr ''failed''"
  "normalizeBacktestStatus B (JStr ''cancelled'') = Inr ''cancelled''"
  "normalizeBacktestStatus B (JStr ''pending'') = Inr ''pending''"
  "normalizeBacktestStatus B JUndefined = Inr ''pending''"
  by (simp_all add: normalizeBacktestStatus_def nullish_coalesce_def is_nullish_def
      toLowerCase_status_names toLowerCase_fixed)

lemma normalize_upper_completed:
  "normalizeBacktestStatus B (JStr ''COMPLETED'') = Inr ''completed''"
  by (simp add: normalizeBacktestStatus_def nullish_coalesce_def is_nullish_def toLowerCase_def
      lower_char_def)

text \<open>
  C8, as the code has it.  \<open>normalizeBacktestStatus\<close> lowers the string that
  \<open>String(status ?? "")\<close> gives and returns it when it is one of the five statuses, and
  \<open>pending\<close> otherwise; so whenever it returns, it returns one of the five.  A string is
  recognised case-insensitively and every other string gives \<open>pending\<close>; \<open>null\<close>,
  \<open>undefined\<close>, booleans and numbers, finite or not, give \<open>pending\<close>; an object without
  an own \<open>toString\<close> property gives \<open>pending\<close>.  The function throws a \<open>TypeError\<close>
  exactly on the values that \<open>String\<close> cannot convert: an object with an own \<open>toString\<close>
  property, and an array that holds such a value.
\<close>

theorem normalizeBacktestStatus_coercion:
  "(normalizeBacktestStatus B v = Inr st \<longrightarrow> st \<in> set BacktestStatusValue)
   \<and> (normalizeBacktestStatus B v = Inl TypeError \<longleftrightarrow> uncoercible v)
   \<and> normalizeBacktestStatus B v =
       and_then (js_String B (nullish_coalesce v (JStr [])))
         (\<lambda>s. Inr (if toLowerCase s \<in> set BacktestStatusValue then toLowerCase s else ''pending''))
   \<and> normalizeBacktestStatus B (JStr s) =
       Inr (if toLowerCase s \<in> set BacktestStatusValue then toLowerCase s else ''pending'')
   \<and> normalizeBacktestStatus B JNull = Inr ''pending''
   \<and> normalizeBacktestStatus B JUndefined = Inr ''pending''
   \<and> normalizeBacktestStatus B (JBool b) = Inr ''pending''
   \<and> normalizeBacktestStatus B (JNum n) = Inr ''pending''
   \<and> normalizeBacktestStatus B (JObj fs) =
       (if ''toString'' \<in> set (map fst fs) then Inl TypeError else Inr ''pending'')"
proof -
  have five: "normalizeBacktestStatus B v = Inr st \<longrightarrow> st \<in> set BacktestStatusValue"
    by (simp add: normalizeBacktestStatus_cases)
  have null: "normalizeBacktestStatus B JNull = Inr ''pending''"
    by (simp add: normalizeBacktestStatus_switch nullish_coalesce_def is_nullish_def
        toLowerCase_fixed BacktestStatusValue_def)
  have undef: "normalizeBacktestStatus B JUndefined = Inr ''pending''"
    by (simp add: normalizeBacktestStatus_switch nullish_coalesce_def is_nullish_def
        toLowerCase_fixed BacktestStatusValue_def)
  have bool: "normalizeBacktestStatus B (JBool b) = Inr ''pending''"
    by (simp add: normalizeBacktestStatus_switch nullish_coalesce_def is_nullish_def
        toLowerCase_fixed BacktestStatusValue_def)
  have obj: "normalizeBacktestStatus B (JObj fs) =
       (if ''toString'' \<in> set (map fst fs) then Inl TypeError else Inr ''pending'')"
    by (simp add: normalizeBacktestStatus_switch nullish_coalesce_def is_nullish_def
        toLowerCase_fixed BacktestStatusValue_def)
  from five normalizeBacktestStatus_throws_iff [of B v] normalizeBacktestStatus_switch [of B v]
    normalizeBacktestStatus_string [of B s] null undef bool
    normalizeBacktestStatus_number [of B n] obj
  show ?thesis by blast
qed

text \<open>The status \<open>RUNNING\<close> is returned as \<open>running\<close>, one of the five.\<close>

theorem normalizeBacktestStatus_coercion_witness:
  "normalizeBacktestStatus example_builtins (JStr ''RUNNING'') = Inr ''running''
   \<and> ''running'' \<in> set BacktestStatusValue"
proof -
  have r: "normalizeBacktestStatus example_builtins (JStr ''RUNNING'') = Inr ''running''"
    by (simp add: normalizeBacktestStatus_def nullish_coalesce_def is_nullish_def toLowerCase_def
        lower_char_def)
  with normalizeBacktestStatus_coercion [of example_builtins "JStr ''RUNNING''" "''running''"]
  show ?thesis by blast
qed

text \<open>
  C8 as stated fails twice.  The array \<open>["Completed"]\<close> is not a string, and it is not
  mapped to \<open>pending\<close>, because \<open>String(["Completed"])\<close> is \<open>Completed\<close>.  And on the
  JSON object \<open>{"toString": null}\<close> the function returns nothing: it throws.
\<close>

theorem normalizeBacktestStatus_counterexample:
  "normalizeBacktestStatus example_builtins (JArr [JStr ''Completed'']) = Inr ''completed''
   \<and> normalizeBacktestStatus example_builtins (JObj [(''toString'', JNull)]) = Inl TypeError"
  by (simp add: normalizeBacktestStatus_def toLowerCase_def lower_char_def nullish_coalesce_def
      is_nullish_def)

section \<open>Properties of the metric normalisation\<close>

lemma js_get_update: "js_get (AList.update k v al) k' = (if k' = k then v else js_get al k')"
  by (simp add: js_get_def update_conv')

lemma assign_metrics_returns:
  "assign_metrics convert payload ks acc = Inr out \<Longrightarrow>
     (k \<in> set ks \<longrightarrow> convert (pickTopLevelOrMetric payload k) = Inr (js_get out k))
     \<and> (k \<notin> set ks \<longrightarrow> js_get out k = js_get acc k)"
proof (induction ks arbitrary: acc)
  case Nil
  then show ?case by simp
next
  case (Cons key keys)
  from Cons.prems obtain v where v: "convert (pickTopLevelOrMetric payload key) = Inr v"
    and rest: "assign_metrics convert payload keys (AList.update key v acc) = Inr out"
    by (auto simp add: and_then_Inr_iff)
  from Cons.IH [OF rest] v show ?case
    by (auto simp add: js_get_update)
qed

lemma assign_metrics_throws_iff:
  "assign_metrics convert payload ks acc = Inl TypeError \<longleftrightarrow>
     (\<exists>k \<in> set ks. convert (pickTopLevelOrMetric payload k) = Inl TypeError)"
proof (induction ks arbitrary: acc)
  case Nil
  then show ?case by simp
next
  case (Cons key keys)
  show ?case
  proof (cases "convert (pickTopLevelOrMetric payload key)")
    case (Inl e)
    then show ?thesis using js_error_is_TypeError [of e] by simp
  next
    case (Inr v)
    then show ?thesis using Cons.IH [of "AList.update key v acc"] by simp
  qed
qed

lemma toNumber_throws_iff: "toNumber B v = Inl TypeError \<longleftrightarrow> uncoercible v"
  by (cases v) (simp_all add: toNumber_def and_then_Inl_iff js_String_throws_iff
      del: js_String.simps)

lemma toInteger_throws_iff: "toInteger B v = Inl TypeError \<longleftrightarrow> uncoercible v"
  by (simp add: toInteger_def and_then_Inl_iff toNumber_throws_iff)

lemma toNumber_finite: "toNumber B v = Inr x \<Longrightarrow> finite_or_undefined x"
  by (auto simp add: toNumber_def and_then_Inr_iff split: if_splits)

lemma toInteger_finite: "toInteger B v = Inr x \<Longrightarrow> finite_or_undefined x"
proof -
  assume "toInteger B v = Inr x"
  then obtain y where y: "toNumber B v = Inr y"
    and x: "x = (case y of JNum n \<Rightarrow> JNum (math_trunc n) | _ \<Rightarrow> JUndefined)"
    by (auto simp add: toInteger_def and_then_Inr_iff)
  from toNumber_finite [OF y] show ?thesis
  proof (cases y)
    case (JNum n)
    with \<open>finite_or_undefined y\<close> have "isFinite n" by simp
    then have "isFinite (math_trunc n)" by (cases n) simp_all
    with JNum x show ?thesis by simp
  qed (simp_all add: x)
qed

lemma metric_keys_disjoint: "set NUMERIC_METRIC_KEYS \<inter> set INTEGER_METRIC_KEYS = {}"
  by (simp add: NUMERIC_METRIC_KEYS_def INTEGER_METRIC_KEYS_def)

lemma status_no_metric_key:
  "''status'' \<notin> set NUMERIC_METRIC_KEYS" "''status'' \<notin> set INTEGER_METRIC_KEYS"
  by (simp_all add: NUMERIC_METRIC_KEYS_def INTEGER_METRIC_KEYS_def)

lemma normalizeBacktestResult_returns:
  assumes "normalizeBacktestResult B payload = Inr normalized"
  shows "(k \<in> set NUMERIC_METRIC_KEYS \<longrightarrow>
            toNumber B (pickTopLevelOrMetric payload k) = Inr (js_get normalized k))
     \<and> (k \<in> set INTEGER_METRIC_KEYS \<longrightarrow>
            toInteger B (pickTopLevelOrMetric payload k) = Inr (js_get normalized k))
     \<and> (k \<notin> set NUMERIC_METRIC_KEYS \<and> k \<notin> set INTEGER_METRIC_KEYS \<and> k \<noteq> ''status'' \<longrightarrow>
            js_get normalized k = js_get payload k)
     \<and> (normalizeBacktestStatus B (js_get payload ''status'') = Inr st \<longrightarrow>
            js_get normalized ''status'' = JStr st)"
proof -
  from assms obtain st' n1 where
    st: "normalizeBacktestStatus B (js_get payload ''status'') = Inr st'"
    and n1: "assign_metrics (toNumber B) payload NUMERIC_METRIC_KEYS
               (AList.update ''status'' (JStr st') payload) = Inr n1"
    and n2: "assign_metrics (toInteger B) payload INTEGER_METRIC_KEYS n1 = Inr normalized"
    by (auto simp add: normalizeBacktestResult_def and_then_Inr_iff)
  note a = assign_metrics_returns [OF n1] and b = assign_metrics_returns [OF n2]
  have num: "k \<in> set NUMERIC_METRIC_KEYS \<longrightarrow>
            toNumber B (pickTopLevelOrMetric payload k) = Inr (js_get normalized k)"
  proof
    assume k: "k \<in> set NUMERIC_METRIC_KEYS"
    with metric_keys_disjoint have "k \<notin> set INTEGER_METRIC_KEYS" by auto
    with b [of k] have "js_get normalized k = js_get n1 k" by simp
    with a [of k] k show "toNumber B (pickTopLevelOrMetric payload k) = Inr (js_get normalized k)"
      by simp
  qed
  have int: "k \<in> set INTEGER_METRIC_KEYS \<longrightarrow>
            toInteger B (pickTopLevelOrMetric payload k) = Inr (js_get normalized k)"
    using b [of k] by simp
  have other: "k \<notin> set NUMERIC_METRIC_KEYS \<and> k \<notin> set INTEGER_METRIC_KEYS \<and> k \<noteq> ''status'' \<longrightarrow>
            js_get normalized k = js_get payload k"
    using a [of k] b [of k] by (simp add: js_get_update)
  have status: "normalizeBacktestStatus B (js_get payload ''status'') = Inr st \<longrightarrow>
            js_get normalized ''status'' = JStr st"
    using a [of "''status''"] b [of "''status''"] st
    by (simp add: js_get_update status_no_metric_key)
  from num int other status show ?thesis by blast
qed

lemma normalizeBacktestResult_throws_iff:
  "normalizeBacktestResult B payload = Inl TypeError \<longleftrightarrow>
     uncoercible (js_get payload ''status'')
     \<or> (\<exists>key \<in> set (NUMERIC_METRIC_KEYS @ INTEGER_METRIC_KEYS).
           uncoercible (pickTopLevelOrMetric payload key))"
proof (cases "normalizeBacktestStatus B (js_get payload ''status'')")
  case (Inl e)
  with js_error_is_TypeError [of e] normalizeBacktestStatus_throws_iff [of B "js_get payload ''status''"]
  show ?thesis by (simp add: normalizeBacktestResult_def)
next
  case (Inr st)
  with normalizeBacktestStatus_throws_iff [of B "js_get payload ''status''"]
  have ok: "\<not> uncoercible (js_get payload ''status'')" by simp
  show ?thesis
  proof (cases "assign_metrics (toNumber B) payload NUMERIC_METRIC_KEYS
                  (AList.update ''status'' (JStr st) payload)")
    case (Inl e)
    with js_error_is_TypeError [of e]
    have thrown: "assign_metrics (toNumber B) payload NUMERIC_METRIC_KEYS
                  (AList.update ''status'' (JStr st) payload) = Inl TypeError"
      by simp
    with Inr have "normalizeBacktestResult B payload = Inl TypeError"
      by (simp add: normalizeBacktestResult_def)
    moreover from thrown
    have "\<exists>k \<in> set NUMERIC_METRIC_KEYS. uncoercible (pickTopLevelOrMetric payload k)"
      by (simp add: assign_metrics_throws_iff toNumber_throws_iff)
    ultimately show ?thesis by auto
  next
    case n1: (Inr n1)
    with assign_metrics_throws_iff [of "toNumber B" payload NUMERIC_METRIC_KEYS
        "AList.update ''status'' (JStr st) payload"]
    have none: "\<not> (\<exists>k \<in> set NUMERIC_METRIC_KEYS. uncoercible (pickTopLevelOrMetric payload k))"
      by (simp add: toNumber_throws_iff)
    from Inr n1 have "normalizeBacktestResult B payload
        = assign_metrics (toInteger B) payload INTEGER_METRIC_KEYS n1"
      by (simp add: normalizeBacktestResult_def)
    with ok none show ?thesis
      by (auto simp add: assign_metrics_throws_iff toInteger_throws_iff)
  qed
qed

lemmas normalize_result_defs =
  normalizeBacktestResult_def NUMERIC_METRIC_KEYS_def INTEGER_METRIC_KEYS_def
  pickTopLevelOrMetric_def js_get_def toNumber_def toInteger_def

lemma zero_trades_normalized:
  "normalizeBacktestResult B zero_trades_payload = Inr zero_trades_result"
  by (simp add: normalize_result_defs zero_trades_payload_def zero_trades_result_def
      normalize_upper_completed)

lemma leaking_normalized:
  "normalizeBacktestResult B leaking_payload = Inr leaking_result"
  by (simp add: normalize_result_defs leaking_payload_def leaking_result_def normalize_examples)

lemma nested_only_normalized:
  "normalizeBacktestResult B nested_only_payload = Inr nested_only_result"
  by (simp add: normalize_result_defs nested_only_payload_def nested_only_result_def
      normalize_examples)

lemma completed_result_normalized:
  "normalizeBacktestResult B [(''status'', JStr ''completed'')] = Inr completed_result_data"
  by (simp add: normalizeBacktestResult_def NUMERIC_METRIC_KEYS_def INTEGER_METRIC_KEYS_def
      pickTopLevelOrMetric_def js_get_def toNumber_def toInteger_def normalize_examples
      completed_result_data_def)

text \<open>
  C5, as the code has it.  Whenever \<open>normalizeBacktestResult\<close> returns, each of the
  thirteen metric fields at the top level of the result (the ten numeric and the three
  integer metric keys, \<open>win_rate\<close> and \<open>profit_factor\<close> among them) is a finite number or
  \<open>undefined\<close>, whatever \<open>total_trades\<close> is.  Every other field except \<open>status\<close> is
  copied from the payload as it is: the nested \<open>metrics\<close> object and fields such as
  \<open>final_value\<close> keep what they held.
\<close>

theorem normalized_metrics_finite:
  "(normalizeBacktestResult B payload = Inr normalized
      \<and> k \<in> set (NUMERIC_METRIC_KEYS @ INTEGER_METRIC_KEYS)
      \<longrightarrow> finite_or_undefined (js_get normalized k))
   \<and> (normalizeBacktestResult B payload = Inr normalized
      \<and> k \<notin> set (NUMERIC_METRIC_KEYS @ INTEGER_METRIC_KEYS) \<and> k \<noteq> ''status''
      \<longrightarrow> js_get normalized k = js_get payload k)"
proof -
  have a: "normalizeBacktestResult B payload = Inr normalized
      \<and> k \<in> set (NUMERIC_METRIC_KEYS @ INTEGER_METRIC_KEYS)
      \<longrightarrow> finite_or_undefined (js_get normalized k)"
  proof
    assume h: "normalizeBacktestResult B payload = Inr normalized
      \<and> k \<in> set (NUMERIC_METRIC_KEYS @ INTEGER_METRIC_KEYS)"
    then have r: "normalizeBacktestResult B payload = Inr normalized" by simp
    from h have "k \<in> set NUMERIC_METRIC_KEYS \<or> k \<in> set INTEGER_METRIC_KEYS" by simp
    then show "finite_or_undefined (js_get normalized k)"
    proof
      assume "k \<in> set NUMERIC_METRIC_KEYS"
      with normalizeBacktestResult_returns [OF r, of k]
      have "toNumber B (pickTopLevelOrMetric payload k) = Inr (js_get normalized k)" by blast
      then show ?thesis by (rule toNumber_finite)
    next
      assume "k \<in> set INTEGER_METRIC_KEYS"
      with normalizeBacktestResult_returns [OF r, of k]
      have "toInteger B (pickTopLevelOrMetric payload k) = Inr (js_get normalized k)" by blast
      then show ?thesis by (rule toInteger_finite)
    qed
  qed
  have b: "normalizeBacktestResult B payload = Inr normalized
      \<and> k \<notin> set (NUMERIC_METRIC_KEYS @ INTEGER_METRIC_KEYS) \<and> k \<noteq> ''status''
      \<longrightarrow> js_get normalized k = js_get payload k"
  proof
    assume h: "normalizeBacktestResult B payload = Inr normalized
      \<and> k \<notin> set (NUMERIC_METRIC_KEYS @ INTEGER_METRIC_KEYS) \<and> k \<noteq> ''status''"
    then have r: "normalizeBacktestResult B payload = Inr normalized" by simp
    from h normalizeBacktestResult_returns [OF r, of k]
    show "js_get normalized k = js_get payload k" by simp
  qed
  from a b show ?thesis by blast
qed

text \<open>
  With no trades, a \<open>win_rate\<close> of \<open>NaN\<close> and a \<open>profit_factor\<close> of \<open>Infinity\<close> both
  become \<open>undefined\<close>; the nested \<open>metrics\<close> object is the payload's.
\<close>

theorem normalized_metrics_finite_witness:
  "normalizeBacktestResult example_builtins zero_trades_payload = Inr zero_trades_result
   \<and> finite_or_undefined (js_get zero_trades_result ''profit_factor'')
   \<and> js_get zero_trades_result ''profit_factor'' = JUndefined
   \<and> js_get zero_trades_result ''win_rate'' = JUndefined
   \<and> js_get zero_trades_result ''total_trades'' = JNum (Fin 0)
   \<and> js_get zero_trades_result ''metrics'' = js_get zero_trades_payload ''metrics''"
proof -
  note r = zero_trades_normalized [of example_builtins]
  have k: "''profit_factor'' \<in> set (NUMERIC_METRIC_KEYS @ INTEGER_METRIC_KEYS)"
    by (simp add: NUMERIC_METRIC_KEYS_def)
  have m: "''metrics'' \<notin> set (NUMERIC_METRIC_KEYS @ INTEGER_METRIC_KEYS) \<and> ''metrics'' \<noteq> ''status''"
    by (simp add: NUMERIC_METRIC_KEYS_def INTEGER_METRIC_KEYS_def)
  from r k normalized_metrics_finite [of example_builtins zero_trades_payload zero_trades_result
      "''profit_factor''"]
  have a: "finite_or_undefined (js_get zero_trades_result ''profit_factor'')" by blast
  from r m normalized_metrics_finite [of example_builtins zero_trades_payload zero_trades_result
      "''metrics''"]
  have b: "js_get zero_trades_result ''metrics'' = js_get zero_trades_payload ''metrics''" by blast
  have c: "js_get zero_trades_result ''profit_factor'' = JUndefined"
    "js_get zero_trades_result ''win_rate'' = JUndefined"
    "js_get zero_trades_result ''total_trades'' = JNum (Fin 0)"
    by (simp_all add: zero_trades_result_def js_get_def)
  from r a b c show ?thesis by blast
qed

text \<open>
  C5 as stated fails: an infinite \<open>final_value\<close> and an infinite metric under \<open>metrics\<close>
  are still in the normalised output.
\<close>

theorem infinity_survives_counterexample:
  "normalizeBacktestResult example_builtins leaking_payload = Inr leaking_result
   \<and> js_get leaking_result ''final_value'' = JNum PosInf
   \<and> opt_index (js_get leaking_result ''metrics'') ''avg_loss'' = JNum NegInf"
  by (simp add: leaking_normalized leaking_result_def js_get_def)

text \<open>
  C9, as the code has it.  Whenever \<open>normalizeBacktestResult\<close> returns, then for every
  metric key the normalised value is the conversion (\<open>toNumber\<close>, \<open>toInteger\<close> for the
  integer keys) of the top-level field when that is neither \<open>null\<close> nor \<open>undefined\<close>,
  otherwise of the field under \<open>payload.metrics\<close> when that is neither \<open>null\<close> nor
  \<open>undefined\<close>, and \<open>undefined\<close> otherwise.  The function throws a \<open>TypeError\<close>, and
  resolves nothing, exactly when the status or the value picked for one of the metric
  keys cannot be converted.
\<close>

theorem metric_precedence:
  "(normalizeBacktestResult B payload = Inr normalized
      \<and> k \<in> set (NUMERIC_METRIC_KEYS @ INTEGER_METRIC_KEYS)
      \<longrightarrow> (let convert = (if k \<in> set INTEGER_METRIC_KEYS then toInteger B else toNumber B);
               topLevel = js_get payload k;
               nested = opt_index (js_get payload ''metrics'') k
           in if \<not> is_nullish topLevel then convert topLevel
              else if \<not> is_nullish nested then convert nested
              else Inr JUndefined) = Inr (js_get normalized k))
   \<and> (normalizeBacktestResult B payload = Inl TypeError \<longleftrightarrow>
        uncoercible (js_get payload ''status'')
        \<or> (\<exists>key \<in> set (NUMERIC_METRIC_KEYS @ INTEGER_METRIC_KEYS).
              uncoercible (pickTopLevelOrMetric payload key)))"
proof -
  have pick: "\<And>convert. convert JUndefined = Inr JUndefined \<Longrightarrow>
      (let topLevel = js_get payload k;
           nested = opt_index (js_get payload ''metrics'') k
       in if \<not> is_nullish topLevel then convert topLevel
          else if \<not> is_nullish nested then convert nested
          else Inr JUndefined) = convert (pickTopLevelOrMetric payload k)"
    by (simp add: pickTopLevelOrMetric_def Let_def is_nullish_def)
  have undef: "toNumber B JUndefined = Inr JUndefined" "toInteger B JUndefined = Inr JUndefined"
    by (simp_all add: toNumber_def toInteger_def)
  have a: "normalizeBacktestResult B payload = Inr normalized
      \<and> k \<in> set (NUMERIC_METRIC_KEYS @ INTEGER_METRIC_KEYS)
      \<longrightarrow> (let convert = (if k \<in> set INTEGER_METRIC_KEYS then toInteger B else toNumber B);
               topLevel = js_get payload k;
               nested = opt_index (js_get payload ''metrics'') k
           in if \<not> is_nullish topLevel then convert topLevel
              else if \<not> is_nullish nested then convert nested
              else Inr JUndefined) = Inr (js_get normalized k)"
  proof
    assume h: "normalizeBacktestResult B payload = Inr normalized
      \<and> k \<in> set (NUMERIC_METRIC_KEYS @ INTEGER_METRIC_KEYS)"
    then have r: "normalizeBacktestResult B payload = Inr normalized" by simp
    note ret = normalizeBacktestResult_returns [OF r, of k]
    show "(let convert = (if k \<in> set INTEGER_METRIC_KEYS then toInteger B else toNumber B);
               topLevel = js_get payload k;
               nested = opt_index (js_get payload ''metrics'') k
           in if \<not> is_nullish topLevel then convert topLevel
              else if \<not> is_nullish nested then convert nested
              else Inr JUndefined) = Inr (js_get normalized k)"
    proof (cases "k \<in> set INTEGER_METRIC_KEYS")
      case True
      with ret have "toInteger B (pickTopLevelOrMetric payload k) = Inr (js_get normalized k)"
        by blast
      with True pick [of "toInteger B"] undef show ?thesis by (simp add: Let_def)
    next
      case False
      with h have "k \<in> set NUMERIC_METRIC_KEYS" by simp
      with ret have "toNumber B (pickTopLevelOrMetric payload k) = Inr (js_get normalized k)"
        by blast
      with False pick [of "toNumber B"] undef show ?thesis by (simp add: Let_def)
    qed
  qed
  from a normalizeBacktestResult_throws_iff [of B payload] show ?thesis by blast
qed

text \<open>A \<open>win_rate\<close> that is \<open>null\<close> at the top level is taken from \<open>metrics\<close>.\<close>

theorem metric_precedence_witness:
  "normalizeBacktestResult example_builtins nested_only_payload = Inr nested_only_result
   \<and> js_get nested_only_payload ''win_rate'' = JNull
   \<and> opt_index (js_get nested_only_payload ''metrics'') ''win_rate'' = JNum (Fin (1 / 2))
   \<and> js_get nested_only_result ''win_rate'' = JNum (Fin (1 / 2))"
proof -
  note r = nested_only_normalized [of example_builtins]
  have k: "''win_rate'' \<in> set (NUMERIC_METRIC_KEYS @ INTEGER_METRIC_KEYS)"
    by (simp add: NUMERIC_METRIC_KEYS_def)
  have top: "js_get nested_only_payload ''win_rate'' = JNull"
    and nested: "opt_index (js_get nested_only_payload ''metrics'') ''win_rate'' = JNum (Fin (1 / 2))"
    by (simp_all add: nested_only_payload_def js_get_def)
  have conv: "toNumber example_builtins (JNum (Fin (1 / 2))) = Inr (JNum (Fin (1 / 2)))"
    by (simp add: toNumber_def)
  have ni: "''win_rate'' \<notin> set INTEGER_METRIC_KEYS" by (simp add: INTEGER_METRIC_KEYS_def)
  from r k metric_precedence [of example_builtins nested_only_payload nested_only_result
      "''win_rate''"]
  have "(let convert = (if ''win_rate'' \<in> set INTEGER_METRIC_KEYS
                        then toInteger example_builtins else toNumber example_builtins);
             topLevel = js_get nested_only_payload ''win_rate'';
             nested = opt_index (js_get nested_only_payload ''metrics'') ''win_rate''
         in if \<not> is_nullish topLevel then convert topLevel
            else if \<not> is_nullish nested then convert nested
            else Inr JUndefined) = Inr (js_get nested_only_result ''win_rate'')"
    by blast
  then have v: "js_get nested_only_result ''win_rate'' = JNum (Fin (1 / 2))"
    by (simp add: Let_def ni top nested is_nullish_def conv)
  from r top nested v show ?thesis by blast
qed

text \<open>
  C9 as stated fails for a payload whose \<open>win_rate\<close> is \<open>{"toString": null}\<close>: no
  value is resolved, the function throws.
\<close>

theorem unprintable_metric_counterexample:
  "normalizeBacktestResult example_builtins unprintable_payload = Inl TypeError"
  by (simp add: normalize_result_defs unprintable_payload_def normalize_examples)

section \<open>Properties of the polling hook\<close>

lemma api_backtests_status_returns:
  "api_backtests_status B response_data = Inr polled \<Longrightarrow>
     \<exists>st. normalizeBacktestStatus B (js_get response_data ''status'') = Inr st
          \<and> js_get polled ''status'' = JStr st
          \<and> normalizeBacktestStatus B (JStr st) = Inr st"
  by (auto simp add: api_backtests_status_def and_then_Inr_iff js_get_update
      normalizeBacktestStatus_idem)

lemma api_backtests_status_examples:
  "api_backtests_status B [(''status'', JStr ''running'')] = Inr running_status_data"
  "api_backtests_status B [(''status'', JStr ''completed''), (''progress'', JNum (Fin 100))]
     = Inr [(''status'', JStr ''completed''), (''progress'', JNum (Fin 100))]"
  by (simp_all add: api_backtests_status_def js_get_def normalize_examples running_status_data_def)

lemma wrapper_upper_completed:
  "api_backtests_status B [(''status'', JStr ''COMPLETED'')] = Inr [(''status'', JStr ''completed'')]"
  by (simp add: api_backtests_status_def js_get_def normalize_upper_completed)

lemma status_refetchInterval_returns:
  "normalizeBacktestStatus B (opt_field data ''status'') = Inr st \<Longrightarrow>
     status_refetchInterval B data = Inr (if isTerminalState st then NoRefetch else EveryMs 1000)"
  by (simp add: status_refetchInterval_def isTerminalState_def)

lemma status_refetchInterval_throws:
  "normalizeBacktestStatus B (opt_field data ''status'') = Inl e \<Longrightarrow>
     status_refetchInterval B data = Inl e"
  by (simp add: status_refetchInterval_def)

text \<open>
  C3.  The refetch interval of \<open>useBacktestStatus\<close> is 1000 ms exactly when the polled
  status normalises to a status that is not terminal, and \<open>false\<close> exactly when it
  normalises to \<open>completed\<close>, \<open>failed\<close> or \<open>cancelled\<close>; the callback throws only when
  the normalisation does.  The polled status is its only input: nothing else, such as a
  cancellation that has been requested, stops the polling.  Before the first response
  there is no data and the interval is 1000 ms.  On the data that the wrapper
  \<open>api.backtests.status\<close> returns, the normalisation does not throw, and the interval is
  the one that belongs to the status of the response.
\<close>

theorem status_refetchInterval_terminal:
  "(status_refetchInterval B data = Inr (EveryMs 1000)
      \<longleftrightarrow> (\<exists>st. normalizeBacktestStatus B (opt_field data ''status'') = Inr st
                \<and> \<not> isTerminalState st))
   \<and> (status_refetchInterval B data = Inr NoRefetch
      \<longleftrightarrow> (\<exists>st. normalizeBacktestStatus B (opt_field data ''status'') = Inr st
                \<and> st \<in> {''completed'', ''failed'', ''cancelled''}))
   \<and> (status_refetchInterval B data = Inl TypeError
      \<longleftrightarrow> normalizeBacktestStatus B (opt_field data ''status'') = Inl TypeError)
   \<and> status_refetchInterval B None = Inr (EveryMs 1000)
   \<and> (api_backtests_status B response_data = Inr polled
      \<longrightarrow> (\<exists>st. normalizeBacktestStatus B (js_get response_data ''status'') = Inr st
                \<and> status_refetchInterval B (Some polled)
                    = Inr (if isTerminalState st then NoRefetch else EveryMs 1000)))"
proof -
  have abc: "(status_refetchInterval B data = Inr (EveryMs 1000)
      \<longleftrightarrow> (\<exists>st. normalizeBacktestStatus B (opt_field data ''status'') = Inr st
                \<and> \<not> isTerminalState st))
   \<and> (status_refetchInterval B data = Inr NoRefetch
      \<longleftrightarrow> (\<exists>st. normalizeBacktestStatus B (opt_field data ''status'') = Inr st
                \<and> st \<in> {''completed'', ''failed'', ''cancelled''}))
   \<and> (status_refetchInterval B data = Inl TypeError
      \<longleftrightarrow> normalizeBacktestStatus B (opt_field data ''status'') = Inl TypeError)"
  proof (cases "normalizeBacktestStatus B (opt_field data ''status'')")
    case (Inl e)
    then have "status_refetchInterval B data = Inl e"
      by (rule status_refetchInterval_throws)
    with Inl js_error_is_TypeError [of e] show ?thesis by simp
  next
    case (Inr st)
    then have r: "status_refetchInterval B data
        = Inr (if isTerminalState st then NoRefetch else EveryMs 1000)"
      by (rule status_refetchInterval_returns)
    have t: "isTerminalState st \<longleftrightarrow> st \<in> {''completed'', ''failed'', ''cancelled''}"
      by (simp add: isTerminalState_def)
    show ?thesis
    proof (cases "isTerminalState st")
      case True
      with r t Inr show ?thesis by simp
    next
      case False
      with r t Inr show ?thesis by simp
    qed
  qed
  then have a: "status_refetchInterval B data = Inr (EveryMs 1000)
      \<longleftrightarrow> (\<exists>st. normalizeBacktestStatus B (opt_field data ''status'') = Inr st
                \<and> \<not> isTerminalState st)"
    and b: "status_refetchInterval B data = Inr NoRefetch
      \<longleftrightarrow> (\<exists>st. normalizeBacktestStatus B (opt_field data ''status'') = Inr st
                \<and> st \<in> {''completed'', ''failed'', ''cancelled''})"
    and c: "status_refetchInterval B data = Inl TypeError
      \<longleftrightarrow> normalizeBacktestStatus B (opt_field data ''status'') = Inl TypeError"
    by blast+
  have d: "status_refetchInterval B None = Inr (EveryMs 1000)"
  proof -
    have "normalizeBacktestStatus B (opt_field None ''status'') = Inr ''pending''"
      by (simp add: opt_field_def normalizeBacktestStatus_def nullish_coalesce_def
          is_nullish_def toLowerCase_fixed)
    from status_refetchInterval_returns [OF this] show ?thesis
      by (simp add: isTerminalState_def)
  qed
  have e: "api_backtests_status B response_data = Inr polled
      \<longrightarrow> (\<exists>st. normalizeBacktestStatus B (js_get response_data ''status'') = Inr st
                \<and> status_refetchInterval B (Some polled)
                    = Inr (if isTerminalState st then NoRefetch else EveryMs 1000))"
  proof
    assume "api_backtests_status B response_data = Inr polled"
    from api_backtests_status_returns [OF this] obtain st where
      st: "normalizeBacktestStatus B (js_get response_data ''status'') = Inr st"
      and p: "js_get polled ''status'' = JStr st"
      and i: "normalizeBacktestStatus B (JStr st) = Inr st"
      by blast
    have "normalizeBacktestStatus B (opt_field (Some polled) ''status'') = Inr st"
      by (simp add: opt_field_def p i)
    then have "status_refetchInterval B (Some polled)
        = Inr (if isTerminalState st then NoRefetch else EveryMs 1000)"
      by (rule status_refetchInterval_returns)
    with st show "\<exists>st. normalizeBacktestStatus B (js_get response_data ''status'') = Inr st
                \<and> status_refetchInterval B (Some polled)
                    = Inr (if isTerminalState st then NoRefetch else EveryMs 1000)"
      by blast
  qed
  from a b c d e show ?thesis by blast
qed

text \<open>A response with the status \<open>running\<close> keeps the polling at 1000 ms.\<close>

theorem status_refetchInterval_terminal_witness:
  "api_backtests_status example_builtins [(''status'', JStr ''running'')] = Inr running_status_data
   \<and> status_refetchInterval example_builtins (Some running_status_data) = Inr (EveryMs 1000)"
proof -
  note run = api_backtests_status_examples(1) [of example_builtins]
  from status_refetchInterval_terminal [of example_builtins None "[(''status'', JStr ''running'')]"
      running_status_data] run
  obtain st where st: "normalizeBacktestStatus example_builtins
        (js_get [(''status'', JStr ''running'')] ''status'') = Inr st"
    and r: "status_refetchInterval example_builtins (Some running_status_data)
        = Inr (if isTerminalState st then NoRefetch else EveryMs 1000)"
    by blast
  from st have "st = ''running''" by (simp add: js_get_def normalize_examples)
  with r have "status_refetchInterval example_builtins (Some running_status_data) = Inr (EveryMs 1000)"
    by (simp add: isTerminalState_def)
  with run show ?thesis by blast
qed

lemma finalStatus_examples:
  "finalStatus B None None = Inr ''pending''"
  "finalStatus B (Some [(''status'', JStr ''running'')]) None = Inr ''running''"
  "finalStatus B (Some [(''status'', JStr ''completed'')]) None = Inr ''completed''"
  "finalStatus B (Some [(''status'', JStr ''cancelled'')]) None = Inr ''cancelled''"
  "finalStatus B (Some [(''status'', JStr ''completed'')]) (Some [(''status'', JStr ''completed'')])
     = Inr ''completed''"
  "finalStatus B (Some [(''status'', JStr ''running''), (''progress'', JNull)]) None = Inr ''running''"
  "finalStatus B (Some [(''status'', JStr ''running''), (''progress'', JNum (Fin 42))]) None
     = Inr ''running''"
  "finalStatus B (Some [(''status'', JStr ''failed''), (''message'', JNull)]) None = Inr ''failed''"
  "finalStatus B (Some [(''status'', JObj [(''toString'', JNull)])]) None = Inl TypeError"
  by (simp_all add: finalStatus_def opt_field_def js_get_def js_or_def normalize_examples
      normalizeBacktestStatus_throws_iff)

text \<open>
  The data of the two queries are what the wrappers \<open>api.backtests.status\<close> and
  \<open>api.backtests.get\<close> returned, or \<open>undefined\<close>.  On such data the status of a render is
  always computed: the hook throws on no data that its queries can hold.
\<close>

lemma finalStatus_returns_on_query_data:
  assumes "statusData = None \<or> (\<exists>response_data polled.
              api_backtests_status B response_data = Inr polled \<and> statusData = Some polled)"
    and "resultData = None \<or> (\<exists>payload normalized.
              normalizeBacktestResult B payload = Inr normalized \<and> resultData = Some normalized)"
  shows "\<exists>st. finalStatus B statusData resultData = Inr st"
proof -
  have s: "opt_field statusData ''status'' = JUndefined
      \<or> (\<exists>st. opt_field statusData ''status'' = JStr st)"
  proof (cases statusData)
    case None
    then show ?thesis by (simp add: opt_field_def)
  next
    case (Some polled)
    with assms(1) obtain response_data where "api_backtests_status B response_data = Inr polled"
      by auto
    from api_backtests_status_returns [OF this] Some show ?thesis
      by (auto simp add: opt_field_def)
  qed
  have r: "opt_field resultData ''status'' = JUndefined
      \<or> (\<exists>st. opt_field resultData ''status'' = JStr st)"
  proof (cases resultData)
    case None
    then show ?thesis by (simp add: opt_field_def)
  next
    case (Some normalized)
    with assms(2) obtain payload where n: "normalizeBacktestResult B payload = Inr normalized"
      by auto
    then obtain st where "normalizeBacktestStatus B (js_get payload ''status'') = Inr st"
      by (auto simp add: normalizeBacktestResult_def and_then_Inr_iff)
    with normalizeBacktestResult_returns [OF n, of _ st] Some show ?thesis
      by (simp add: opt_field_def)
  qed
  let ?v = "js_or (opt_field statusData ''status'') (opt_field resultData ''status'')"
  from s r have "\<not> uncoercible ?v"
    by (auto simp add: js_or_def)
  then have n: "normalizeBacktestStatus B ?v \<noteq> Inl TypeError"
    unfolding normalizeBacktestStatus_throws_iff .
  show ?thesis
  proof (cases "normalizeBacktestStatus B ?v")
    case (Inl e)
    moreover have "e = TypeError" by (rule js_error_is_TypeError)
    ultimately show ?thesis using n by simp
  next
    case (Inr st)
    then show ?thesis by (simp add: finalStatus_def)
  qed
qed

text \<open>
  C10.  When the latest status payload carries no progress value (\<open>null\<close>, \<open>undefined\<close>
  or no payload yet), the hook reports progress 100 if the derived status is terminal and
  0 otherwise; when it carries one, that value is reported unchanged.  (Should the
  derived status not be computable, the hook throws before it reports anything.)
\<close>

theorem hook_progress_default:
  "(finalStatus B statusData resultData = Inr st \<and> is_nullish (opt_field statusData ''progress'')
      \<longrightarrow> hook_progress B statusData resultData
          = Inr (JNum (Fin (if isTerminalState st then 100 else 0))))
   \<and> (finalStatus B statusData resultData = Inr st
      \<and> \<not> is_nullish (opt_field statusData ''progress'')
      \<longrightarrow> hook_progress B statusData resultData = Inr (opt_field statusData ''progress''))
   \<and> (finalStatus B statusData resultData = Inl e
      \<longrightarrow> hook_progress B statusData resultData = Inl e)"
  by (simp add: hook_progress_def nullish_coalesce_def)

theorem hook_progress_default_witness:
  "hook_progress example_builtins (Some [(''status'', JStr ''completed'')]) None = Inr (JNum (Fin 100))
   \<and> hook_progress example_builtins (Some [(''status'', JStr ''running''), (''progress'', JNull)]) None
       = Inr (JNum (Fin 0))
   \<and> hook_progress example_builtins
         (Some [(''status'', JStr ''running''), (''progress'', JNum (Fin 42))]) None
       = Inr (JNum (Fin 42))
   \<and> hook_progress example_builtins (Some [(''status'', JObj [(''toString'', JNull)])]) None
       = Inl TypeError"
proof -
  have n1: "is_nullish (opt_field (Some [(''status'', JStr ''completed'')]) ''progress'')"
    by (simp add: is_nullish_def opt_field_def js_get_def)
  have n2: "is_nullish (opt_field (Some [(''status'', JStr ''running''), (''progress'', JNull)]) ''progress'')"
    by (simp add: is_nullish_def opt_field_def js_get_def)
  have n3: "\<not> is_nullish (opt_field (Some [(''status'', JStr ''running''), (''progress'', JNum (Fin 42))]) ''progress'')"
    by (simp add: is_nullish_def opt_field_def js_get_def)
  from n1 finalStatus_examples(3) [of example_builtins]
    hook_progress_default [of example_builtins "Some [(''status'', JStr ''completed'')]" None
      "''completed''"]
  have p1: "hook_progress example_builtins (Some [(''status'', JStr ''completed'')]) None
      = Inr (JNum (Fin 100))"
    by (simp add: isTerminalState_def)
  from n2 finalStatus_examples(6) [of example_builtins]
    hook_progress_default [of example_builtins
      "Some [(''status'', JStr ''running''), (''progress'', JNull)]" None "''running''"]
  have p2: "hook_progress example_builtins (Some [(''status'', JStr ''running''), (''progress'', JNull)]) None
       = Inr (JNum (Fin 0))"
    by (simp add: isTerminalState_def)
  from n3 finalStatus_examples(7) [of example_builtins]
    hook_progress_default [of example_builtins
      "Some [(''status'', JStr ''running''), (''progress'', JNum (Fin 42))]" None "''running''"]
  have p3: "hook_progress example_builtins
         (Some [(''status'', JStr ''running''), (''progress'', JNum (Fin 42))]) None
       = Inr (JNum (Fin 42))"
    by (simp add: opt_field_def js_get_def)
  from finalStatus_examples(9) [of example_builtins]
    hook_progress_default [of example_builtins
      "Some [(''status'', JObj [(''toString'', JNull)])]" None _ TypeError]
  have p4: "hook_progress example_builtins (Some [(''status'', JObj [(''toString'', JNull)])]) None
       = Inl TypeError"
    by blast
  from p1 p2 p3 p4 show ?thesis by blast
qed

lemma terminal_effect_nonterminal:
  "finalStatus B sd rd = Inr st \<Longrightarrow> \<not> isTerminalState st \<Longrightarrow> backtestId s = Some bid \<Longrightarrow>
   bid \<noteq> 0 \<Longrightarrow> terminal_effect B sd rd s = Inr s"
  by (simp add: terminal_effect_def)

lemma terminal_effect_handled:
  "finalStatus B sd rd = Inr st \<Longrightarrow> completedStateRef s = Some st \<Longrightarrow> backtestId s = Some bid \<Longrightarrow>
   bid \<noteq> 0 \<Longrightarrow> terminal_effect B sd rd s = Inr s"
  by (simp add: terminal_effect_def)

lemma terminal_effect_fires:
  "finalStatus B sd rd = Inr st \<Longrightarrow> isTerminalState st \<Longrightarrow> completedStateRef s \<noteq> Some st \<Longrightarrow>
   backtestId s = Some bid \<Longrightarrow> bid \<noteq> 0 \<Longrightarrow>
     terminal_effect B sd rd s =
       Inr (s\<lparr>completedStateRef := Some st,
              fired := fired s
                @ [InvalidateLists, RefetchActiveLists, InvalidateDetail bid, RefetchResult]
                @ (if st = ''completed'' then [ToastSuccess]
                   else if st = ''failed'' then [ToastError (opt_field sd ''message'')]
                   else [])\<rparr>)"
  by (simp add: terminal_effect_def)

lemma terminal_effect_no_job:
  "finalStatus B sd rd = Inr st \<Longrightarrow> backtestId s = None \<Longrightarrow>
     terminal_effect B sd rd s = Inr (s\<lparr>completedStateRef := None\<rparr>)"
  by (simp add: terminal_effect_def)

lemma run_effects_append:
  "run_effects B s (ds @ es) = and_then (run_effects B s ds) (\<lambda>s'. run_effects B s' es)"
proof (induction ds arbitrary: s)
  case Nil
  then show ?case by simp
next
  case (Cons d ds)
  then show ?case by (cases "terminal_effect B (fst d) (snd d) s") simp_all
qed

lemma run_effects_nonterminal:
  "\<forall>d \<in> set ds. \<exists>st. finalStatus B (fst d) (snd d) = Inr st \<and> \<not> isTerminalState st \<Longrightarrow>
   backtestId s = Some bid \<Longrightarrow> bid \<noteq> 0 \<Longrightarrow> run_effects B s ds = Inr s"
proof (induction ds)
  case Nil
  then show ?case by simp
next
  case (Cons d ds)
  from Cons.prems(1) obtain st where "finalStatus B (fst d) (snd d) = Inr st" "\<not> isTerminalState st"
    by auto
  with Cons.prems have "terminal_effect B (fst d) (snd d) s = Inr s"
    by (simp add: terminal_effect_nonterminal)
  with Cons show ?case by simp
qed

lemma run_effects_handled:
  "\<forall>d \<in> set ds. \<exists>st. finalStatus B (fst d) (snd d) = Inr st \<and> (isTerminalState st \<longrightarrow> st = t) \<Longrightarrow>
   completedStateRef s = Some t \<Longrightarrow> backtestId s = Some bid \<Longrightarrow> bid \<noteq> 0 \<Longrightarrow>
   run_effects B s ds = Inr s"
proof (induction ds)
  case Nil
  then show ?case by simp
next
  case (Cons d ds)
  from Cons.prems(1) obtain st where st: "finalStatus B (fst d) (snd d) = Inr st"
    and same: "isTerminalState st \<longrightarrow> st = t"
    by auto
  have "terminal_effect B (fst d) (snd d) s = Inr s"
  proof (cases "isTerminalState st")
    case True
    with same have "st = t" by simp
    with st Cons.prems show ?thesis by (simp add: terminal_effect_handled)
  next
    case False
    with st Cons.prems show ?thesis by (simp add: terminal_effect_nonterminal)
  qed
  with Cons show ?case by simp
qed

lemma run_effects_no_job:
  "\<forall>d \<in> set ds. \<exists>st. finalStatus B (fst d) (snd d) = Inr st \<Longrightarrow>
   backtestId s = None \<Longrightarrow> completedStateRef s = None \<Longrightarrow> run_effects B s ds = Inr s"
proof (induction ds)
  case Nil
  then show ?case by simp
next
  case (Cons d ds)
  from Cons.prems(1) obtain st where "finalStatus B (fst d) (snd d) = Inr st" by auto
  with Cons.prems have "terminal_effect B (fst d) (snd d) s = Inr s"
    by (simp add: terminal_effect_no_job)
  with Cons show ?case by simp
qed

text \<open>
  C1, as the code has it.  Take a job started by \<open>runBacktest\<close> whose observed status,
  once terminal, does not change to another terminal status.  However many renders see
  the terminal status, and whatever is seen before it, the terminal-transition handler
  runs exactly once: it invalidates and refetches the lists, invalidates the job's detail
  and refetches the result, and shows one success toast for \<open>completed\<close>, one failure
  toast for \<open>failed\<close> and no toast for \<open>cancelled\<close>.  Before a terminal status is seen
  it does nothing.
\<close>

theorem terminal_handler_once:
  assumes bid: "bid \<noteq> 0"
    and pre: "\<forall>d \<in> set pre. \<exists>st. finalStatus B (fst d) (snd d) = Inr st \<and> \<not> isTerminalState st"
    and t: "finalStatus B sd rd = Inr t" "isTerminalState t"
    and post: "\<forall>d \<in> set post. \<exists>st. finalStatus B (fst d) (snd d) = Inr st
                 \<and> (isTerminalState st \<longrightarrow> st = t)"
  shows "run_effects B (runBacktest_resolved bid (runBacktest_begin s0)) pre
      = Inr (runBacktest_resolved bid (runBacktest_begin s0))
    \<and> run_effects B (runBacktest_resolved bid (runBacktest_begin s0)) (pre @ (sd, rd) # post)
      = Inr ((runBacktest_resolved bid (runBacktest_begin s0))
          \<lparr>completedStateRef := Some t,
           fired := fired s0
             @ [InvalidateLists, RefetchActiveLists, InvalidateDetail bid, RefetchResult]
             @ (if t = ''completed'' then [ToastSuccess]
                else if t = ''failed'' then [ToastError (opt_field sd ''message'')]
                else [])\<rparr>)"
proof -
  define s where "s = runBacktest_resolved bid (runBacktest_begin s0)"
  define s' where "s' = s\<lparr>completedStateRef := Some t,
         fired := fired s0
           @ [InvalidateLists, RefetchActiveLists, InvalidateDetail bid, RefetchResult]
           @ (if t = ''completed'' then [ToastSuccess]
              else if t = ''failed'' then [ToastError (opt_field sd ''message'')]
              else [])\<rparr>"
  have id: "backtestId s = Some bid" and ref: "completedStateRef s = None"
    and f: "fired s = fired s0"
    by (simp_all add: s_def runBacktest_resolved_def runBacktest_begin_def)
  have quiet: "run_effects B s pre = Inr s"
    using pre id bid by (rule run_effects_nonterminal)
  have fire: "terminal_effect B sd rd s = Inr s'"
    using terminal_effect_fires [OF t(1) t(2) _ id bid] ref f by (simp add: s'_def)
  have after: "run_effects B s' post = Inr s'"
    using post
  proof (rule run_effects_handled)
    show "completedStateRef s' = Some t" by (simp add: s'_def)
    show "backtestId s' = Some bid" by (simp add: s'_def id)
    show "bid \<noteq> 0" by (rule bid)
  qed
  have "run_effects B s (pre @ (sd, rd) # post)
      = and_then (run_effects B s pre) (\<lambda>u. run_effects B u ((sd, rd) # post))"
    by (rule run_effects_append)
  also have "\<dots> = run_effects B s ((sd, rd) # post)"
    by (simp only: quiet and_then.simps)
  also have "\<dots> = and_then (terminal_effect B sd rd s) (\<lambda>u. run_effects B u post)"
    by simp
  also have "\<dots> = run_effects B s' post"
    by (simp only: fire and_then.simps)
  also note after
  finally have "run_effects B s (pre @ (sd, rd) # post) = Inr s'" .
  with quiet show ?thesis
    unfolding s'_def s_def by blast
qed

theorem terminal_handler_once_witness:
  "run_effects example_builtins (runBacktest_resolved 7 (runBacktest_begin fresh_polling))
        ([(None, None), (Some [(''status'', JStr ''running'')], None)]
         @ (Some [(''status'', JStr ''completed'')], None)
         # [(Some [(''status'', JStr ''completed'')], None),
            (Some [(''status'', JStr ''completed'')], Some [(''status'', JStr ''completed'')])])
     = Inr \<lparr>backtestId = Some 7, completedStateRef = Some ''completed'',
            fired = [InvalidateLists, RefetchActiveLists, InvalidateDetail 7, RefetchResult,
                     ToastSuccess]\<rparr>"
proof -
  have bid: "(7::int) \<noteq> 0" by simp
  have pre: "\<forall>d \<in> set [(None, None), (Some [(''status'', JStr ''running'')], None)].
         \<exists>st. finalStatus example_builtins (fst d) (snd d) = Inr st \<and> \<not> isTerminalState st"
    by (simp add: finalStatus_examples isTerminalState_def)
  have t: "finalStatus example_builtins (Some [(''status'', JStr ''completed'')]) None
             = Inr ''completed''"
    by (simp add: finalStatus_examples)
  have tt: "isTerminalState ''completed''" by (simp add: isTerminalState_def)
  have post: "\<forall>d \<in> set [(Some [(''status'', JStr ''completed'')], None),
                   (Some [(''status'', JStr ''completed'')], Some [(''status'', JStr ''completed'')])].
         \<exists>st. finalStatus example_builtins (fst d) (snd d) = Inr st
           \<and> (isTerminalState st \<longrightarrow> st = ''completed'')"
    by (simp add: finalStatus_examples)
  from terminal_handler_once [OF bid pre t tt post, of fresh_polling]
  show ?thesis
    by (simp add: fresh_polling_def runBacktest_resolved_def runBacktest_begin_def)
qed

text \<open>
  C1 as stated fails for a cancelled job: the handler runs, and no success or failure
  notification is emitted.
\<close>

theorem cancelled_job_counterexample:
  "run_effects example_builtins (runBacktest_resolved 7 (runBacktest_begin fresh_polling))
     [(Some [(''status'', JStr ''cancelled'')], None)]
   = Inr \<lparr>backtestId = Some 7, completedStateRef = Some ''cancelled'',
          fired = [InvalidateLists, RefetchActiveLists, InvalidateDetail 7, RefetchResult]\<rparr>
   \<and> notifications [InvalidateLists, RefetchActiveLists, InvalidateDetail 7, RefetchResult] = []"
  by (simp add: finalStatus_examples isTerminalState_def terminal_effect_def
      runBacktest_resolved_def runBacktest_begin_def fresh_polling_def notifications_def)

text \<open>
  The marker remembers the status alone.  Were a job seen as \<open>completed\<close> and later as
  \<open>failed\<close>, the handler would run for each of the two.
\<close>

lemma terminal_status_change_refires:
  "run_effects example_builtins (runBacktest_resolved 7 (runBacktest_begin fresh_polling))
      [(Some [(''status'', JStr ''completed'')], None),
       (Some [(''status'', JStr ''failed''), (''message'', JNull)], None)]
   = Inr \<lparr>backtestId = Some 7, completedStateRef = Some ''failed'',
          fired = [InvalidateLists, RefetchActiveLists, InvalidateDetail 7, RefetchResult,
                   ToastSuccess,
                   InvalidateLists, RefetchActiveLists, InvalidateDetail 7, RefetchResult,
                   ToastError JNull]\<rparr>"
  by (simp add: finalStatus_examples isTerminalState_def terminal_effect_def
      runBacktest_resolved_def runBacktest_begin_def fresh_polling_def opt_field_def js_get_def)

lemma finalStatus_polled:
  assumes "api_backtests_status B response_data = Inr polled"
  shows "finalStatus B (Some polled) resultData
           = normalizeBacktestStatus B (js_get response_data ''status'')"
proof -
  from api_backtests_status_returns [OF assms] obtain st where
    st: "normalizeBacktestStatus B (js_get response_data ''status'') = Inr st"
    and p: "js_get polled ''status'' = JStr st"
    and i: "normalizeBacktestStatus B (JStr st) = Inr st"
    by blast
  from normalizeBacktestStatus_cases [OF st] have "st \<noteq> []"
    by (auto simp add: BacktestStatusValue_def)
  then show ?thesis
    by (simp add: finalStatus_def opt_field_def p js_or_def i st)
qed

lemma reported_statuses_polled:
  "list_all2 (\<lambda>raw d. \<exists>polled. api_backtests_status B raw = Inr polled \<and> fst d = Some polled)
     raws ds \<Longrightarrow>
   reported_statuses B ds = map (\<lambda>raw. normalizeBacktestStatus B (js_get raw ''status'')) raws"
proof (induction raws ds rule: list_all2_induct)
  case Nil
  then show ?case by (simp add: reported_statuses_def)
next
  case (Cons raw raws d ds)
  from Cons.hyps(1) obtain polled where "api_backtests_status B raw = Inr polled"
    and "fst d = Some polled"
    by blast
  with finalStatus_polled [of B raw polled "snd d"]
  have "finalStatus B (fst d) (snd d) = normalizeBacktestStatus B (js_get raw ''status'')"
    by simp
  with Cons.IH show ?case by (simp add: reported_statuses_def)
qed

text \<open>
  C2, as the code has it.  The hook keeps no memory of the statuses it has reported: as
  soon as the status query holds a response, the reported status is the normalised
  status of the latest response, whatever the result query holds.  So from the moment the
  status responses for an id are terminal, every reported status is terminal.  While the
  status query holds nothing, the reported status is the normalised status of the result
  query's data.
\<close>

theorem reported_status_follows_poll:
  "(api_backtests_status B response_data = Inr polled
      \<longrightarrow> finalStatus B (Some polled) resultData
          = normalizeBacktestStatus B (js_get response_data ''status''))
   \<and> (list_all2 (\<lambda>raw d. \<exists>polled. api_backtests_status B raw = Inr polled \<and> fst d = Some polled)
         raws ds
      \<longrightarrow> reported_statuses B ds
          = map (\<lambda>raw. normalizeBacktestStatus B (js_get raw ''status'')) raws)
   \<and> (list_all2 (\<lambda>raw d. \<exists>polled. api_backtests_status B raw = Inr polled \<and> fst d = Some polled)
         raws ds
       \<and> (\<forall>raw \<in> set raws. \<exists>st. normalizeBacktestStatus B (js_get raw ''status'') = Inr st
                                \<and> isTerminalState st)
      \<longrightarrow> (\<forall>x \<in> set (reported_statuses B ds). \<exists>st. x = Inr st \<and> isTerminalState st))
   \<and> reported_statuses B [(None, resultData)]
       = [normalizeBacktestStatus B (opt_field resultData ''status'')]"
proof -
  have single: "api_backtests_status B response_data = Inr polled
      \<longrightarrow> finalStatus B (Some polled) resultData
          = normalizeBacktestStatus B (js_get response_data ''status'')"
    by (simp add: finalStatus_polled)
  have follows: "list_all2 (\<lambda>raw d. \<exists>polled. api_backtests_status B raw = Inr polled \<and> fst d = Some polled)
         raws ds
      \<longrightarrow> reported_statuses B ds
          = map (\<lambda>raw. normalizeBacktestStatus B (js_get raw ''status'')) raws"
    by (simp add: reported_statuses_polled)
  have terminal: "list_all2 (\<lambda>raw d. \<exists>polled. api_backtests_status B raw = Inr polled \<and> fst d = Some polled)
         raws ds
       \<and> (\<forall>raw \<in> set raws. \<exists>st. normalizeBacktestStatus B (js_get raw ''status'') = Inr st
                                \<and> isTerminalState st)
      \<longrightarrow> (\<forall>x \<in> set (reported_statuses B ds). \<exists>st. x = Inr st \<and> isTerminalState st)"
  proof
    assume h: "list_all2 (\<lambda>raw d. \<exists>polled. api_backtests_status B raw = Inr polled \<and> fst d = Some polled)
         raws ds
       \<and> (\<forall>raw \<in> set raws. \<exists>st. normalizeBacktestStatus B (js_get raw ''status'') = Inr st
                                \<and> isTerminalState st)"
    then have "reported_statuses B ds
          = map (\<lambda>raw. normalizeBacktestStatus B (js_get raw ''status'')) raws"
      by (simp add: reported_statuses_polled)
    with h show "\<forall>x \<in> set (reported_statuses B ds). \<exists>st. x = Inr st \<and> isTerminalState st"
      by auto
  qed
  have fallback: "reported_statuses B [(None, resultData)]
       = [normalizeBacktestStatus B (opt_field resultData ''status'')]"
    by (simp add: reported_statuses_def finalStatus_def opt_field_def js_or_def)
  from single follows terminal fallback show ?thesis by blast
qed

theorem reported_status_follows_poll_witness:
  "api_backtests_status example_builtins [(''status'', JStr ''COMPLETED'')]
     = Inr [(''status'', JStr ''completed'')]
   \<and> reported_statuses example_builtins [(Some [(''status'', JStr ''completed'')], None)]
       = [Inr ''completed'']
   \<and> isTerminalState ''completed''"
proof -
  let ?raws = "[[(''status'', JStr ''COMPLETED'')]]"
  let ?ds = "[(Some [(''status'', JStr ''completed'')], None :: jsobj option)]"
  note w = wrapper_upper_completed [of example_builtins]
  have rel: "list_all2 (\<lambda>raw d. \<exists>polled. api_backtests_status example_builtins raw = Inr polled
                 \<and> fst d = Some polled) ?raws ?ds"
    by (simp add: w)
  have n: "normalizeBacktestStatus example_builtins (js_get [(''status'', JStr ''COMPLETED'')] ''status'')
             = Inr ''completed''"
    by (simp add: js_get_def normalize_upper_completed)
  have tt: "isTerminalState ''completed''" by (simp add: isTerminalState_def)
  note inst = reported_status_follows_poll [of example_builtins _ _ _ ?raws ?ds]
  from inst rel have "reported_statuses example_builtins ?ds
      = map (\<lambda>raw. normalizeBacktestStatus example_builtins (js_get raw ''status'')) ?raws"
    by blast
  also have "\<dots> = [Inr ''completed'']" by (simp add: n)
  finally have eq: "reported_statuses example_builtins ?ds = [Inr ''completed'']" .
  from w eq tt show ?thesis by blast
qed

text \<open>
  C2 as stated fails: while the status query has no data yet, the status comes from the
  result query; when the result (already \<open>completed\<close>) arrives before a status response
  that was produced earlier (\<open>running\<close>), the hook reports \<open>completed\<close> and then
  \<open>running\<close> for the same id.
\<close>

theorem terminal_then_running_counterexample:
  "normalizeBacktestResult example_builtins [(''status'', JStr ''completed'')]
     = Inr completed_result_data
   \<and> api_backtests_status example_builtins [(''status'', JStr ''running'')]
     = Inr running_status_data
   \<and> reported_statuses example_builtins
       [(None, Some completed_result_data), (Some running_status_data, Some completed_result_data)]
     = [Inr ''completed'', Inr ''running'']"
proof -
  have first: "finalStatus example_builtins None (Some completed_result_data) = Inr ''completed''"
    by (simp add: finalStatus_def opt_field_def js_or_def js_get_def completed_result_data_def
        normalize_examples)
  have second: "finalStatus example_builtins (Some running_status_data) (Some completed_result_data)
      = Inr ''running''"
    by (simp add: finalStatus_def opt_field_def js_or_def js_get_def running_status_data_def
        normalize_examples)
  from completed_result_normalized [of example_builtins]
    api_backtests_status_examples(1) [of example_builtins] first second
  show ?thesis by (simp add: reported_statuses_def)
qed

text \<open>
  C6.  \<open>reset\<close> and the start of \<open>runBacktest\<close> both clear the handled marker and the
  stored id.  For the next job submitted (directly, or after a \<open>reset\<close>; the hook may
  render any number of times in between), the handler fires at its terminal status
  whatever marker, id and effects the hook held before, in particular when the previous
  job was handled with the same status.
\<close>

theorem reset_clears_marker:
  assumes bid: "bid \<noteq> 0"
    and t: "finalStatus B sd rd = Inr t" "isTerminalState t"
    and idle: "\<forall>d \<in> set idle. \<exists>st. finalStatus B (fst d) (snd d) = Inr st"
    and waiting: "\<forall>d \<in> set waiting. \<exists>st. finalStatus B (fst d) (snd d) = Inr st"
  shows "completedStateRef (reset s) = None \<and> backtestId (reset s) = None
    \<and> completedStateRef (runBacktest_begin s) = None \<and> backtestId (runBacktest_begin s) = None
    \<and> and_then (run_effects B (runBacktest_begin s) waiting)
         (\<lambda>u. terminal_effect B sd rd (runBacktest_resolved bid u))
       = Inr \<lparr>backtestId = Some bid, completedStateRef = Some t,
              fired = fired s
                @ [InvalidateLists, RefetchActiveLists, InvalidateDetail bid, RefetchResult]
                @ (if t = ''completed'' then [ToastSuccess]
                   else if t = ''failed'' then [ToastError (opt_field sd ''message'')]
                   else [])\<rparr>
    \<and> and_then (run_effects B (reset s) idle)
         (\<lambda>u. and_then (run_effects B (runBacktest_begin u) waiting)
                (\<lambda>u'. terminal_effect B sd rd (runBacktest_resolved bid u')))
       = Inr \<lparr>backtestId = Some bid, completedStateRef = Some t,
              fired = fired s
                @ [InvalidateLists, RefetchActiveLists, InvalidateDetail bid, RefetchResult]
                @ (if t = ''completed'' then [ToastSuccess]
                   else if t = ''failed'' then [ToastError (opt_field sd ''message'')]
                   else [])\<rparr>"
proof -
  define out where "out = \<lparr>backtestId = Some bid, completedStateRef = Some t,
              fired = fired s
                @ [InvalidateLists, RefetchActiveLists, InvalidateDetail bid, RefetchResult]
                @ (if t = ''completed'' then [ToastSuccess]
                   else if t = ''failed'' then [ToastError (opt_field sd ''message'')]
                   else [])\<rparr>"
  have cleared: "completedStateRef (reset s) = None" "backtestId (reset s) = None"
    "completedStateRef (runBacktest_begin s) = None" "backtestId (runBacktest_begin s) = None"
    by (simp_all add: reset_def runBacktest_begin_def)
  have same: "runBacktest_begin (reset s) = runBacktest_begin s"
    by (simp add: reset_def runBacktest_begin_def)
  have go: "terminal_effect B sd rd (runBacktest_resolved bid (runBacktest_begin s)) = Inr out"
    using bid t
    by (simp add: terminal_effect_def runBacktest_resolved_def runBacktest_begin_def out_def)
  have a: "run_effects B (runBacktest_begin s) waiting = Inr (runBacktest_begin s)"
    using waiting by (rule run_effects_no_job) (simp_all add: cleared)
  have b: "run_effects B (reset s) idle = Inr (reset s)"
    using idle by (rule run_effects_no_job) (simp_all add: cleared)
  have one: "and_then (run_effects B (runBacktest_begin s) waiting)
         (\<lambda>u. terminal_effect B sd rd (runBacktest_resolved bid u)) = Inr out"
    by (simp only: a and_then.simps go)
  have two: "and_then (run_effects B (reset s) idle)
         (\<lambda>u. and_then (run_effects B (runBacktest_begin u) waiting)
                (\<lambda>u'. terminal_effect B sd rd (runBacktest_resolved bid u'))) = Inr out"
    by (simp only: b and_then.simps same one)
  from cleared one two show ?thesis
    unfolding out_def by blast
qed

text \<open>
  Job 3 was handled as \<open>completed\<close>; job 4, started next, is handled as \<open>completed\<close>
  again.
\<close>

theorem reset_clears_marker_witness:
  "completedStateRef handled_polling = Some ''completed''
   \<and> completedStateRef (reset handled_polling) = None
   \<and> backtestId (reset handled_polling) = None
   \<and> and_then (run_effects example_builtins (runBacktest_begin handled_polling) [(None, None)])
        (\<lambda>u. terminal_effect example_builtins (Some [(''status'', JStr ''completed'')]) None
               (runBacktest_resolved 4 u))
     = Inr \<lparr>backtestId = Some 4, completedStateRef = Some ''completed'',
            fired = [InvalidateLists, RefetchActiveLists, InvalidateDetail 3, RefetchResult,
                     ToastSuccess,
                     InvalidateLists, RefetchActiveLists, InvalidateDetail 4, RefetchResult,
                     ToastSuccess]\<rparr>"
proof -
  have bid: "(4::int) \<noteq> 0" by simp
  have t: "finalStatus example_builtins (Some [(''status'', JStr ''completed'')]) None
             = Inr ''completed''"
    by (simp add: finalStatus_examples)
  have tt: "isTerminalState ''completed''" by (simp add: isTerminalState_def)
  have idle: "\<forall>d \<in> set []. \<exists>st. finalStatus example_builtins (fst d) (snd d) = Inr st"
    by simp
  have waiting: "\<forall>d \<in> set [(None, None)]. \<exists>st. finalStatus example_builtins (fst d) (snd d) = Inr st"
    by (simp add: finalStatus_examples)
  note inst = reset_clears_marker [OF bid t tt idle waiting, of handled_polling]
  have m: "completedStateRef handled_polling = Some ''completed''"
    by (simp add: handled_polling_def)
  from inst have a: "completedStateRef (reset handled_polling) = None"
    and b: "backtestId (reset handled_polling) = None"
    by blast+
  from inst have "and_then (run_effects example_builtins (runBacktest_begin handled_polling) [(None, None)])
        (\<lambda>u. terminal_effect example_builtins (Some [(''status'', JStr ''completed'')]) None
               (runBacktest_resolved 4 u))
     = Inr \<lparr>backtestId = Some 4, completedStateRef = Some ''completed'',
            fired = fired handled_polling
                @ [InvalidateLists, RefetchActiveLists, InvalidateDetail 4, RefetchResult]
                @ (if ''completed'' = ''completed'' then [ToastSuccess]
                   else if ''completed'' = ''failed''
                   then [ToastError (opt_field (Some [(''status'', JStr ''completed'')]) ''message'')]
                   else [])\<rparr>"
    by blast
  then have c: "and_then (run_effects example_builtins (runBacktest_begin handled_polling) [(None, None)])
        (\<lambda>u. terminal_effect example_builtins (Some [(''status'', JStr ''completed'')]) None
               (runBacktest_resolved 4 u))
     = Inr \<lparr>backtestId = Some 4, completedStateRef = Some ''completed'',
            fired = [InvalidateLists, RefetchActiveLists, InvalidateDetail 3, RefetchResult,
                     ToastSuccess,
                     InvalidateLists, RefetchActiveLists, InvalidateDetail 4, RefetchResult,
                     ToastSuccess]\<rparr>"
    by (simp add: handled_polling_def)
  from m a b c show ?thesis by blast
qed

section \<open>Properties of the new-strategy wizard\<close>

lemma requests_append: "requests (xs @ ys) = requests xs @ requests ys"
  by (induction xs rule: requests.induct) simp_all

lemmas page_defs =
  page_after_def initial_page_def initial_params_def handleTypeSelect_def handleNext_def
  handleBack_def handleSubmit_def searchParams_effect_def slider_def strategyTypes_def
  defaultParams_def selectedStrategy_def isAiStrategy_def Let_def

lemma toLowerCase_type_names:
  "toLowerCase ''sma_crossover'' = ''sma_crossover''"
  "toLowerCase ''sentiment_sma_conservative'' = ''sentiment_sma_conservative''"
  by (simp_all add: toLowerCase_def lower_char_def)

lemma names_not_blank: "\<not> is_blank ''trend''" "\<not> is_blank ''calm''"
  by (simp_all add: WHITE_SPACE_def)

text \<open>A name that is a no-break space is blank, as it is for \<open>trim\<close>.\<close>

lemma no_break_space_blank: "is_blank [CHR 0xC2, CHR 0xA0]"
  by (simp add: WHITE_SPACE_def)

text \<open>
  The check that the page makes: on step 2, with the periods out of order, the next
  button shows the error toast and changes nothing else.
\<close>

lemma handleNext_refuses:
  "step s = 2 \<Longrightarrow> slow_period (params s) \<le> fast_period (params s) \<Longrightarrow>
     handleNext s = s\<lparr>issued := issued s @ [ToastErr FastMustBeBelowSlow]\<rparr>"
  by (simp add: handleNext_def)

lemma page_after_refused_periods:
  "page_after refused_periods =
     \<lparr>step = 2, selectedType = Some ''sma_crossover'', strategyName = [],
      params = initial_params\<lparr>fast_period := 40\<rparr>, issued = [ToastErr FastMustBeBelowSlow]\<rparr>"
  by (simp add: refused_periods_def page_defs)

lemma page_after_late_slide_passed:
  "page_after (take 3 late_slide) =
     \<lparr>step = 3, selectedType = Some ''sma_crossover'', strategyName = [],
      params = initial_params, issued = []\<rparr>"
  by (simp add: late_slide_def page_defs)

text \<open>
  C4, which the code does not keep.  The periods are checked by the next button when the
  page leaves step 2, and \<open>handleSubmit\<close> checks nothing.  In this session the page
  reaches step 3 with the periods 10 and 30; the fast slider of the leaving panel then
  moves to 50, and the save button issues a create request that carries \<open>fast_period\<close>
  50 and \<open>slow_period\<close> 30.
\<close>

theorem late_slide_unchecked:
  "step (page_after (take 3 late_slide)) = 3
   \<and> fast_period (params (page_after (take 3 late_slide))) = 10
   \<and> slow_period (params (page_after (take 3 late_slide))) = 30
   \<and> issued (page_after late_slide) =
       [CreateStrategy
          \<lparr>req_name = ''trend'', req_description_of = Some ''sma_crossover'',
           req_strategy_type = ''sma_crossover'',
           req_logic_config = initial_params\<lparr>fast_period := 50, position_size := 1\<rparr>\<rparr>,
        RouterPushDashboard]
   \<and> slow_period (initial_params\<lparr>fast_period := 50, position_size := 1\<rparr>)
       \<le> fast_period (initial_params\<lparr>fast_period := 50, position_size := 1\<rparr>)"
proof -
  have a: "step (page_after (take 3 late_slide)) = 3"
    "fast_period (params (page_after (take 3 late_slide))) = 10"
    "slow_period (params (page_after (take 3 late_slide))) = 30"
    by (simp_all add: page_after_late_slide_passed initial_params_def)
  have b: "issued (page_after late_slide) =
       [CreateStrategy
          \<lparr>req_name = ''trend'', req_description_of = Some ''sma_crossover'',
           req_strategy_type = ''sma_crossover'',
           req_logic_config = initial_params\<lparr>fast_period := 50, position_size := 1\<rparr>\<rparr>,
        RouterPushDashboard]"
    by (simp add: late_slide_def page_defs toLowerCase_type_names names_not_blank
        del: is_blank.simps)
  have c: "slow_period (initial_params\<lparr>fast_period := 50, position_size := 1\<rparr>)
       \<le> fast_period (initial_params\<lparr>fast_period := 50, position_size := 1\<rparr>)"
    by (simp add: initial_params_def)
  from a b c show ?thesis by blast
qed

lemma defaultParams_size:
  "defaultParams t = Some f \<Longrightarrow> 10 \<le> position_size (f p) \<and> position_size (f p) \<le> 100"
  by (auto simp add: defaultParams_def split: if_splits)

lemma size_in_range_step: "size_in_range s \<Longrightarrow> size_in_range (page_step s e)"
proof (cases e)
  case (ClickType t)
  assume "size_in_range s"
  then show ?thesis using ClickType
    by (auto simp add: size_in_range_def handleTypeSelect_def Let_def defaultParams_size
        split: option.splits)
next
  case ClickNext
  assume "size_in_range s"
  then show ?thesis using ClickNext
    by (auto simp add: size_in_range_def handleNext_def requests_append)
next
  case ClickBack
  assume "size_in_range s"
  then show ?thesis using ClickBack
    by (auto simp add: size_in_range_def handleBack_def)
next
  case (ClickSubmit c)
  assume "size_in_range s"
  then show ?thesis using ClickSubmit
    by (auto simp add: size_in_range_def handleSubmit_def Let_def requests_append split: option.splits)
next
  case (UrlType ty)
  assume "size_in_range s"
  then show ?thesis using UrlType
    by (auto simp add: size_in_range_def searchParams_effect_def Let_def defaultParams_size
        split: option.splits)
qed (auto simp add: size_in_range_def slider_def)

lemma size_in_range_foldl: "size_in_range s \<Longrightarrow> size_in_range (foldl page_step s es)"
  by (induction es arbitrary: s) (simp_all add: size_in_range_step)

lemma size_in_range_initial: "size_in_range initial_page"
  by (simp add: size_in_range_def initial_page_def initial_params_def)

text \<open>
  C7.  Whatever the user does on the page, the percentage stays within 10 and 100, and
  every create request issued carries a \<open>position_size\<close> above 0 and at most 1: the
  request that \<open>handleSubmit\<close> makes carries the percentage divided by 100.
\<close>

theorem position_size_fraction:
  "10 \<le> position_size (params (page_after es)) \<and> position_size (params (page_after es)) \<le> 100
   \<and> (\<forall>r \<in> set (requests (issued (page_after es))).
         0 < position_size (req_logic_config r) \<and> position_size (req_logic_config r) \<le> 1)
   \<and> (\<not> is_blank (strategyName s) \<and> selectedType s \<noteq> None \<longrightarrow>
        map (\<lambda>r. position_size (req_logic_config r)) (requests (issued (handleSubmit created s)))
        = map (\<lambda>r. position_size (req_logic_config r)) (requests (issued s))
          @ [position_size (params s) / 100])"
proof -
  have "size_in_range (page_after es)"
    unfolding page_after_def using size_in_range_initial by (rule size_in_range_foldl)
  then have a: "10 \<le> position_size (params (page_after es))"
    and b: "position_size (params (page_after es)) \<le> 100"
    and c: "\<forall>r \<in> set (requests (issued (page_after es))).
         0 < position_size (req_logic_config r) \<and> position_size (req_logic_config r) \<le> 1"
    by (simp_all add: size_in_range_def)
  have d: "\<not> is_blank (strategyName s) \<and> selectedType s \<noteq> None \<longrightarrow>
        map (\<lambda>r. position_size (req_logic_config r)) (requests (issued (handleSubmit created s)))
        = map (\<lambda>r. position_size (req_logic_config r)) (requests (issued s))
          @ [position_size (params s) / 100]"
    by (auto simp add: handleSubmit_def Let_def requests_append)
  from a b c d show ?thesis by blast
qed

lemma page_after_small_position:
  "requests (issued (page_after small_position)) =
     [\<lparr>req_name = ''calm'', req_description_of = Some ''sentiment_sma_conservative'',
       req_strategy_type = ''sentiment_sma_conservative'',
       req_logic_config =
         \<lparr>fast_period = 15, slow_period = 50, use_ema = False,
          buy_threshold = 4 / 10, panic_threshold = - (7 / 10), sentiment_lookback = 5,
          stop_loss = 7, take_profit = 8, position_size = 1 / 5,
          ai_weight = 7 / 10, ignore_ai_on_strong_signal = False\<rparr>\<rparr>]"
  by (simp add: small_position_def page_defs toLowerCase_type_names names_not_blank
      del: is_blank.simps)

lemma page_after_small_position_pending:
  "page_after (butlast small_position) =
     \<lparr>step = 3, selectedType = Some ''sentiment_sma_conservative'', strategyName = ''calm'',
      params =
         \<lparr>fast_period = 15, slow_period = 50, use_ema = False,
          buy_threshold = 4 / 10, panic_threshold = - (7 / 10), sentiment_lookback = 5,
          stop_loss = 7, take_profit = 8, position_size = 20,
          ai_weight = 7 / 10, ignore_ai_on_strong_signal = False\<rparr>,
      issued = []\<rparr>"
  by (simp add: small_position_def page_defs)

theorem position_size_fraction_witness:
  "length (requests (issued (page_after small_position))) = 1
   \<and> position_size (req_logic_config (hd (requests (issued (page_after small_position))))) = 1 / 5
   \<and> 0 < position_size (req_logic_config (hd (requests (issued (page_after small_position)))))
   \<and> position_size (req_logic_config (hd (requests (issued (page_after small_position))))) \<le> 1
   \<and> position_size (params (page_after (butlast small_position))) = 20
   \<and> map (\<lambda>r. position_size (req_logic_config r))
        (requests (issued (handleSubmit False (page_after (butlast small_position))))) = [1 / 5]"
proof -
  let ?s = "page_after (butlast small_position)"
  note inst = position_size_fraction [of small_position ?s False]
  have len: "length (requests (issued (page_after small_position))) = 1"
    by (simp add: page_after_small_position)
  have v: "position_size (req_logic_config (hd (requests (issued (page_after small_position))))) = 1 / 5"
    by (simp add: page_after_small_position)
  from len have "hd (requests (issued (page_after small_position)))
      \<in> set (requests (issued (page_after small_position)))"
    by (cases "requests (issued (page_after small_position))") simp_all
  with inst have rng: "0 < position_size (req_logic_config (hd (requests (issued (page_after small_position)))))"
    "position_size (req_logic_config (hd (requests (issued (page_after small_position))))) \<le> 1"
    by blast+
  have nb: "\<not> is_blank (strategyName ?s)"
    by (simp add: page_after_small_position_pending names_not_blank del: is_blank.simps)
  have sel: "selectedType ?s \<noteq> None" by (simp add: page_after_small_position_pending)
  have pct: "position_size (params ?s) = 20" by (simp add: page_after_small_position_pending)
  have none: "requests (issued ?s) = []" by (simp add: page_after_small_position_pending)
  from inst nb sel have "map (\<lambda>r. position_size (req_logic_config r)) (requests (issued (handleSubmit False ?s)))
        = map (\<lambda>r. position_size (req_logic_config r)) (requests (issued ?s))
          @ [position_size (params ?s) / 100]"
    by blast
  then have sub: "map (\<lambda>r. position_size (req_logic_config r))
        (requests (issued (handleSubmit False ?s))) = [1 / 5]"
    by (simp add: none pct)
  from len v rng pct sub show ?thesis by blast
qed

end
